theory Spec2Isabelle
  imports Complex_Main "HOL-Library.Multiset"
begin

section \<open>utils/cache.js: SmartCache\<close>

text \<open>
  The cache is a JavaScript \<open>Map\<close> from string keys to entries \<open>{data, timestamp, ttl}\<close>
  together with three counters. \<open>Date.now()\<close> is passed to every operation as the
  argument \<open>now\<close> (milliseconds, an integer). A \<open>null\<close> return of \<open>get\<close> is \<open>None\<close>.
  The callbacks registered with \<open>setTimeout\<close> are kept in the state as pending timers;
  \<open>run_timers now\<close> is the event loop firing, at time \<open>now\<close>, every callback that is due.
\<close>

type_synonym key = string

record 'v entry =
  data :: 'v
  timestamp :: int
  ttl :: int

record timer =
  due :: int
  timer_key :: key
  timer_ttl :: int

record 'v SmartCache =
  cache :: "key \<rightharpoonup> 'v entry"
  hits :: nat
  misses :: nat
  sets :: nat
  timers :: "timer list"

definition new_SmartCache :: "'v SmartCache" where
  "new_SmartCache = \<lparr>cache = Map.empty, hits = 0, misses = 0, sets = 0, timers = []\<rparr>"

definition SmartCache_get :: "int \<Rightarrow> key \<Rightarrow> int \<Rightarrow> 'v SmartCache \<Rightarrow> 'v option \<times> 'v SmartCache" where
  "SmartCache_get now k maxAge s =
     (case cache s k of
        Some cached \<Rightarrow>
          if now - timestamp cached < maxAge
          then (Some (data cached), s\<lparr>hits := hits s + 1\<rparr>)
          else (None, s\<lparr>cache := (cache s)(k := None), misses := misses s + 1\<rparr>)
      | None \<Rightarrow> (None, s\<lparr>misses := misses s + 1\<rparr>))"

text \<open>
  \<open>setTimeout(f, ttl)\<close>: the runtime clamps a delay below 1 or above \<open>2^31 - 1\<close> to 1 ms.
\<close>

definition timeout_delay :: "int \<Rightarrow> int" where
  "timeout_delay d = (if d < 1 \<or> 2147483647 < d then 1 else d)"

definition SmartCache_set :: "int \<Rightarrow> key \<Rightarrow> 'v \<Rightarrow> int \<Rightarrow> 'v SmartCache \<Rightarrow> 'v \<times> 'v SmartCache" where
  "SmartCache_set now k v t s =
     (v, s\<lparr>cache := (cache s)(k \<mapsto> \<lparr>data = v, timestamp = now, ttl = t\<rparr>),
           sets := sets s + 1,
           timers := timers s @ [\<lparr>due = now + timeout_delay t, timer_key = k, timer_ttl = t\<rparr>]\<rparr>)"

text \<open>The body of the callback that \<open>set\<close> hands to \<open>setTimeout\<close>, run at time \<open>now\<close>.\<close>

definition cleanup :: "int \<Rightarrow> key \<Rightarrow> int \<Rightarrow> 'v SmartCache \<Rightarrow> 'v SmartCache" where
  "cleanup now k t s =
     (case cache s k of
        Some cached \<Rightarrow>
          if now - timestamp cached \<ge> t then s\<lparr>cache := (cache s)(k := None)\<rparr> else s
      | None \<Rightarrow> s)"

definition run_timers :: "int \<Rightarrow> 'v SmartCache \<Rightarrow> 'v SmartCache" where
  "run_timers now s =
     fold (\<lambda>tm. cleanup now (timer_key tm) (timer_ttl tm))
          (filter (\<lambda>tm. due tm \<le> now) (timers s))
          (s\<lparr>timers := filter (\<lambda>tm. \<not> due tm \<le> now) (timers s)\<rparr>)"

definition SmartCache_has :: "int \<Rightarrow> key \<Rightarrow> int \<Rightarrow> 'v SmartCache \<Rightarrow> bool" where
  "SmartCache_has now k maxAge s =
     (case cache s k of Some cached \<Rightarrow> now - timestamp cached < maxAge | None \<Rightarrow> False)"

definition SmartCache_delete :: "key \<Rightarrow> 'v SmartCache \<Rightarrow> bool \<times> 'v SmartCache" where
  "SmartCache_delete k s = (cache s k \<noteq> None, s\<lparr>cache := (cache s)(k := None)\<rparr>)"

definition SmartCache_clear :: "'v SmartCache \<Rightarrow> bool \<times> 'v SmartCache" where
  "SmartCache_clear s = (True, s\<lparr>cache := Map.empty\<rparr>)"

section \<open>JavaScript strings and regular expressions\<close>

text \<open>
  A JavaScript string is modelled as a \<open>string\<close> whose characters are UTF-16 code units
  in the range U+0000 to U+00FF (the multiplication and division signs of the analyzer's
  patterns are U+00D7 and U+00F7). Code units are compared through their bits, most
  significant first.
\<close>

fun bits :: "char \<Rightarrow> bool list" where
  "bits (Char b0 b1 b2 b3 b4 b5 b6 b7) = [b7, b6, b5, b4, b3, b2, b1, b0]"

fun bits_le :: "bool list \<Rightarrow> bool list \<Rightarrow> bool" where
  "bits_le (a # as) (b # bs) = (if a = b then bits_le as bs else b)"
| "bits_le _ _ = True"

definition char_le :: "char \<Rightarrow> char \<Rightarrow> bool" where
  "char_le c d = bits_le (bits c) (bits d)"

definition in_range :: "char \<Rightarrow> char \<Rightarrow> char \<Rightarrow> bool" where
  "in_range lo hi c = (if char_le lo c then char_le c hi else False)"

text \<open>
  Upper and lower case letters of this range differ by 32, which is bit 5: A to Z and
  U+00C0 to U+00DE (without U+00D7) against a to z and U+00E0 to U+00FE (without U+00F7).
\<close>

fun set_bit5 :: "bool \<Rightarrow> char \<Rightarrow> char" where
  "set_bit5 v (Char b0 b1 b2 b3 b4 b5 b6 b7) = Char b0 b1 b2 b3 b4 v b6 b7"

definition is_upper :: "char \<Rightarrow> bool" where
  "is_upper c = (if in_range CHR ''A'' CHR ''Z'' c then True
                 else if in_range (CHR 0xC0) (CHR 0xDE) c then c \<noteq> CHR 0xD7 else False)"

definition is_lower :: "char \<Rightarrow> bool" where
  "is_lower c = (if in_range CHR ''a'' CHR ''z'' c then True
                 else if in_range (CHR 0xE0) (CHR 0xFE) c then c \<noteq> CHR 0xF7 else False)"

definition toLowerCase_char :: "char \<Rightarrow> char" where
  "toLowerCase_char c = (if is_upper c then set_bit5 True c else c)"

definition toLowerCase :: "string \<Rightarrow> string" where
  "toLowerCase s = map toLowerCase_char s"

text \<open>
  \<open>toUpperCase\<close>: the sharp s (U+00DF) becomes \<open>SS\<close>. The upper case forms of U+00B5 and
  U+00FF lie outside the modelled range; they are left unchanged here (the analyzer
  applies \<open>toUpperCase\<close> only to text matched by \<open>\w+\<close>).
\<close>

definition toUpperCase_char :: "char \<Rightarrow> string" where
  "toUpperCase_char c =
     (if is_lower c then [set_bit5 False c] else if c = CHR 0xDF then ''SS'' else [c])"

definition toUpperCase :: "string \<Rightarrow> string" where
  "toUpperCase s = concat (map toUpperCase_char s)"

text \<open>The character classes \<open>\d\<close>, \<open>\w\<close>, \<open>\s\<close> and the line terminators excluded by \<open>.\<close>\<close>

definition is_digit :: "char \<Rightarrow> bool" where
  "is_digit c = in_range CHR ''0'' CHR ''9'' c"

definition is_word :: "char \<Rightarrow> bool" where
  "is_word c = (if in_range CHR ''a'' CHR ''z'' c then True
                else if in_range CHR ''A'' CHR ''Z'' c then True
                else if is_digit c then True else c = CHR ''_'')"

definition is_space :: "char \<Rightarrow> bool" where
  "is_space c = (if c = CHR '' '' then True
                 else if in_range (CHR 0x09) (CHR 0x0D) c then True else c = CHR 0xA0)"

definition is_line_terminator :: "char \<Rightarrow> bool" where
  "is_line_terminator c = (if c = CHR 0x0A then True else c = CHR 0x0D)"

text \<open>
  Under the \<open>i\<close> flag two code units match when their canonical (upper case) forms are
  equal.
\<close>

definition canonicalize :: "char \<Rightarrow> char" where
  "canonicalize c = (if is_lower c then set_bit5 False c else c)"

definition eqc :: "bool \<Rightarrow> char \<Rightarrow> char \<Rightarrow> bool" where
  "eqc i a b = (if a = b then True else if i then canonicalize a = canonicalize b else False)"

text \<open>
  The patterns of the repository use quantifiers only on single-character terms
  (\<open>.\<close>, \<open>\s\<close>, \<open>\d\<close>, \<open>\w\<close>, a class) and \<open>?\<close> on groups without captures, so the
  syntax is: an \<open>atom\<close> matches one code unit; \<open>Star\<close> and \<open>LazyStar\<close> repeat an atom
  greedily or lazily; \<open>Grp g r\<close> is capture group \<open>g\<close>; \<open>Bol\<close>, \<open>Eol\<close> and \<open>WordB\<close> are
  \<open>^\<close>, \<open>$\<close> (no \<open>m\<close> flag) and \<open>\b\<close>. \<open>GrpEnd\<close> is the matcher's own mark for the end of
  an open group.
\<close>

datatype citem = C char | Digit | Word | Space

datatype atom = AChr char | ADot | ACls bool "citem list"

datatype re =
    Eps
  | Atom atom
  | Seq re re
  | Alt re re
  | Opt re
  | Star atom
  | LazyStar atom
  | Grp nat re
  | Bol
  | Eol
  | WordB
  | GrpEnd nat int

fun item_match :: "bool \<Rightarrow> citem \<Rightarrow> char \<Rightarrow> bool" where
  "item_match i (C a) x = eqc i a x"
| "item_match i Digit x = is_digit x"
| "item_match i Word x = is_word x"
| "item_match i Space x = is_space x"

fun items_match :: "bool \<Rightarrow> citem list \<Rightarrow> char \<Rightarrow> bool" where
  "items_match i [] x = False"
| "items_match i (it # its) x = (if item_match i it x then True else items_match i its x)"

fun atom_match :: "bool \<Rightarrow> atom \<Rightarrow> char \<Rightarrow> bool" where
  "atom_match i (AChr c) x = eqc i c x"
| "atom_match i ADot x = (\<not> is_line_terminator x)"
| "atom_match i (ACls neg items) x = (items_match i items x \<noteq> neg)"

text \<open>
  The state of the matcher: the code unit before the current position, the text from
  the current position on, the current index, and the captures recorded so far as
  (group, start index, end index), the latest first.
\<close>

type_synonym caps = "(nat \<times> int \<times> int) list"
type_synonym mstate = "char option \<times> string \<times> int \<times> caps"

definition word_at :: "char option \<Rightarrow> bool" where
  "word_at p = (case p of None \<Rightarrow> False | Some c \<Rightarrow> is_word c)"

fun first_char :: "string \<Rightarrow> char option" where
  "first_char [] = None"
| "first_char (c # _) = Some c"

fun weight :: "re \<Rightarrow> nat" where
  "weight (Seq a b) = Suc (weight a + weight b)"
| "weight (Alt a b) = Suc (weight a + weight b)"
| "weight (Opt a) = Suc (weight a)"
| "weight (Grp g a) = Suc (Suc (weight a))"
| "weight _ = 1"

text \<open>
  The backtracking matcher: \<open>mk i k st\<close> matches the terms \<open>k\<close> one after the other from
  state \<open>st\<close> and returns the final state of the first way to succeed, in the order in
  which a backtracking engine tries them (left alternative first, greedy longest first,
  lazy shortest first).
\<close>

function (sequential) mk :: "bool \<Rightarrow> re list \<Rightarrow> mstate \<Rightarrow> mstate option" where
  "mk i [] st = Some st"
| "mk i (Eps # k) st = mk i k st"
| "mk i (Atom a # k) (p, [], n, cs) = None"
| "mk i (Atom a # k) (p, x # xs, n, cs) =
     (if atom_match i a x then mk i k (Some x, xs, n + 1, cs) else None)"
| "mk i (Seq a b # k) st = mk i (a # b # k) st"
| "mk i (Alt a b # k) st =
     (case mk i (a # k) st of Some r \<Rightarrow> Some r | None \<Rightarrow> mk i (b # k) st)"
| "mk i (Opt a # k) st =
     (case mk i (a # k) st of Some r \<Rightarrow> Some r | None \<Rightarrow> mk i k st)"
| "mk i (Star a # k) (p, [], n, cs) = mk i k (p, [], n, cs)"
| "mk i (Star a # k) (p, x # xs, n, cs) =
     (if atom_match i a x
      then (case mk i (Star a # k) (Some x, xs, n + 1, cs) of
              Some r \<Rightarrow> Some r
            | None \<Rightarrow> mk i k (p, x # xs, n, cs))
      else mk i k (p, x # xs, n, cs))"
| "mk i (LazyStar a # k) (p, [], n, cs) = mk i k (p, [], n, cs)"
| "mk i (LazyStar a # k) (p, x # xs, n, cs) =
     (case mk i k (p, x # xs, n, cs) of
        Some r \<Rightarrow> Some r
      | None \<Rightarrow> if atom_match i a x then mk i (LazyStar a # k) (Some x, xs, n + 1, cs) else None)"
| "mk i (Grp g a # k) (p, s, n, cs) = mk i (a # GrpEnd g n # k) (p, s, n, cs)"
| "mk i (GrpEnd g n0 # k) (p, s, n, cs) = mk i k (p, s, n, (g, n0, n) # cs)"
| "mk i (Bol # k) (p, s, n, cs) = (if n = 0 then mk i k (p, s, n, cs) else None)"
| "mk i (Eol # k) (p, s, n, cs) = (if s = [] then mk i k (p, s, n, cs) else None)"
| "mk i (WordB # k) (p, s, n, cs) =
     (if word_at p \<noteq> word_at (first_char s) then mk i k (p, s, n, cs) else None)"
  by pat_completeness auto
termination
  by (relation "inv_image (measure (\<lambda>k. sum_list (map weight k)) <*lex*> measure length)
        (\<lambda>(i, k, p, s, n, cs). (k, s))") auto

definition Plus :: "atom \<Rightarrow> re" where
  "Plus a = Seq (Atom a) (Star a)"

definition LazyPlus :: "atom \<Rightarrow> re" where
  "LazyPlus a = Seq (Atom a) (LazyStar a)"

fun str :: "string \<Rightarrow> re" where
  "str [] = Eps"
| "str [c] = Atom (AChr c)"
| "str (c # cs) = Seq (Atom (AChr c)) (str cs)"

fun seqs :: "re list \<Rightarrow> re" where
  "seqs [] = Eps"
| "seqs [r] = r"
| "seqs (r # rs) = Seq r (seqs rs)"

fun alts :: "re list \<Rightarrow> re" where
  "alts [] = Eps"
| "alts [r] = r"
| "alts (r # rs) = Alt r (alts rs)"

definition words :: "string list \<Rightarrow> re" where
  "words ws = alts (map str ws)"

text \<open>
  \<open>s.match(r)\<close> and \<open>r.test(s)\<close> for a pattern without the \<open>g\<close> flag: the first index from
  the left at which the pattern matches. The result is the start index and the final
  state; \<open>None\<close> is \<open>null\<close>.
\<close>

fun search_from :: "bool \<Rightarrow> re \<Rightarrow> char option \<Rightarrow> string \<Rightarrow> int \<Rightarrow> (int \<times> mstate) option" where
  "search_from i r p [] n = map_option (Pair n) (mk i [r] (p, [], n, []))"
| "search_from i r p (c # cs) n =
     (case mk i [r] (p, c # cs, n, []) of
        None \<Rightarrow> search_from i r (Some c) cs (n + 1)
      | Some st \<Rightarrow> Some (n, st))"

definition js_match :: "bool \<Rightarrow> re \<Rightarrow> string \<Rightarrow> (int \<times> mstate) option" where
  "js_match i r s = search_from i r None s 0"

definition js_test :: "bool \<Rightarrow> re \<Rightarrow> string \<Rightarrow> bool" where
  "js_test i r s = (js_match i r s \<noteq> None)"

definition substring :: "string \<Rightarrow> int \<Rightarrow> int \<Rightarrow> string" where
  "substring s a b = take (nat (b - a)) (drop (nat a) s)"

text \<open>\<open>match[g]\<close>: the text of capture group \<open>g\<close>, \<open>None\<close> when the group took no part.\<close>

definition group :: "string \<Rightarrow> (int \<times> mstate) \<Rightarrow> nat \<Rightarrow> string option" where
  "group s r g = (case r of (_, _, _, _, cs) \<Rightarrow>
      map_option (\<lambda>(a, b). substring s a b) (map_of cs g))"

text \<open>
  \<open>s.replace(r, rep)\<close> with the \<open>g\<close> flag: every match from the left is replaced; after
  an empty match the scan moves on by one code unit.
\<close>

function replace_all :: "bool \<Rightarrow> re \<Rightarrow> string \<Rightarrow> char option \<Rightarrow> string \<Rightarrow> int \<Rightarrow> string" where
  "replace_all i r rep p s n =
     (case mk i [r] (p, s, n, []) of
        Some (p', s', n', cs) \<Rightarrow>
          if length s' < length s then rep @ replace_all i r rep p' s' n'
          else (case s of [] \<Rightarrow> rep | c # t \<Rightarrow> rep @ c # replace_all i r rep (Some c) t (n + 1))
      | None \<Rightarrow>
          (case s of [] \<Rightarrow> [] | c # t \<Rightarrow> c # replace_all i r rep (Some c) t (n + 1)))"
  by pat_completeness auto
termination
  by (relation "measure (\<lambda>(i, r, rep, p, s, n). length s)") auto

definition js_replace_all :: "bool \<Rightarrow> re \<Rightarrow> string \<Rightarrow> string \<Rightarrow> string" where
  "js_replace_all i r rep s = replace_all i r rep None s 0"

text \<open>\<open>s.replace(r, rep)\<close> without the \<open>g\<close> flag: the first match only.\<close>

definition js_replace :: "bool \<Rightarrow> re \<Rightarrow> string \<Rightarrow> string \<Rightarrow> string" where
  "js_replace i r rep s =
     (case js_match i r s of
        None \<Rightarrow> s
      | Some (a, (p, s', b, cs)) \<Rightarrow> take (nat a) s @ rep @ s')"

text \<open>
  The capture groups that every match of a pattern records: those that are not inside an
  alternative or an optional part.
\<close>

fun sure_groups :: "re \<Rightarrow> nat set" where
  "sure_groups (Grp g a) = insert g (sure_groups a)"
| "sure_groups (GrpEnd g n) = {g}"
| "sure_groups (Seq a b) = sure_groups a \<union> sure_groups b"
| "sure_groups (Alt a b) = sure_groups a \<inter> sure_groups b"
| "sure_groups _ = {}"

fun caps_of :: "mstate \<Rightarrow> caps" where
  "caps_of (p, s, n, cs) = cs"

text \<open>\<open>s.trim()\<close>, \<open>s.includes(t)\<close> and \<open>s.replace(t, rep)\<close> with a string \<open>t\<close>.\<close>

definition trim :: "string \<Rightarrow> string" where
  "trim s = rev (dropWhile is_space (rev (dropWhile is_space s)))"

fun starts_with :: "string \<Rightarrow> string \<Rightarrow> bool" where
  "starts_with [] s = True"
| "starts_with (c # cs) [] = False"
| "starts_with (c # cs) (x # xs) = (if c = x then starts_with cs xs else False)"

fun js_includes :: "string \<Rightarrow> string \<Rightarrow> bool" where
  "js_includes [] t = (t = [])"
| "js_includes (c # cs) t = (if starts_with t (c # cs) then True else js_includes cs t)"

fun replace_str :: "string \<Rightarrow> string \<Rightarrow> string \<Rightarrow> string" where
  "replace_str t rep [] = (if t = [] then rep else [])"
| "replace_str t rep (c # cs) =
     (if starts_with t (c # cs) then rep @ drop (length t) (c # cs)
      else c # replace_str t rep cs)"

section \<open>JavaScript numbers\<close>

text \<open>
  A JavaScript number is finite, an infinity or \<open>NaN\<close>; a finite number is kept as an exact
  fraction. \<open>parseFloat\<close> belongs to the engine, not to the program, and rounds to a
  double: it is a parameter \<open>parse\<close> of the functions that call it, from the text to the
  number. A number is falsy when it is 0 or \<open>NaN\<close>.
\<close>

datatype js_number = Finite rat | PosInfinity | NegInfinity | NaN

fun number_truthy :: "js_number \<Rightarrow> bool" where
  "number_truthy (Finite x) = (x \<noteq> 0)"
| "number_truthy NaN = False"
| "number_truthy _ = True"

section \<open>utils/queryAnalyzer.js: analyzeQuery\<close>

text \<open>
  The analysis object. \<open>null\<close> is \<open>None\<close>; \<open>primaryIntent\<close> is \<open>null\<close> or one of the intent
  names, so \<open>!analysis.primaryIntent\<close> is \<open>primaryIntent a = None\<close>. Confidences are exact
  decimal fractions.
\<close>

record analysis =
  needsTime :: bool
  needsDate :: bool
  needsWeather :: bool
  needsNews :: bool
  needsCurrency :: bool
  needsCrypto :: bool
  needsCountry :: bool
  needsDictionary :: bool
  needsMath :: bool
  needsQuote :: bool
  needsJoke :: bool
  needsTrivia :: bool
  needsWikipedia :: bool
  needsWebSearch :: bool
  timeLocation :: "string option"
  weatherLocation :: "string option"
  currencyFrom :: "string option"
  currencyTo :: "string option"
  currencyAmount :: "js_number option"
  cryptoName :: "string option"
  searchTerms :: "string list"
  mathExpression :: "string option"
  confidence :: rat
  primaryIntent :: "string option"

definition initial_analysis :: analysis where
  "initial_analysis =
     \<lparr>needsTime = False, needsDate = False, needsWeather = False, needsNews = False,
      needsCurrency = False, needsCrypto = False, needsCountry = False,
      needsDictionary = False, needsMath = False, needsQuote = False, needsJoke = False,
      needsTrivia = False, needsWikipedia = False, needsWebSearch = False,
      timeLocation = None, weatherLocation = None, currencyFrom = None, currencyTo = None,
      currencyAmount = None, cryptoName = None, searchTerms = [], mathExpression = None,
      confidence = 0, primaryIntent = None\<rparr>"

text \<open>The block \<open>if (!analysis.primaryIntent) { primaryIntent = name; confidence = c; }\<close>\<close>

definition set_primary :: "string \<Rightarrow> rat \<Rightarrow> analysis \<Rightarrow> analysis" where
  "set_primary name c a =
     (if primaryIntent a = None then a\<lparr>primaryIntent := Some name, confidence := c\<rparr> else a)"

subsection \<open>Pieces of patterns\<close>

definition sp :: atom where "sp = ACls False [Space]"
definition dg :: atom where "dg = ACls False [Digit]"
definition wd :: atom where "wd = ACls False [Word]"
definition chr :: "char \<Rightarrow> re" where "chr c = Atom (AChr c)"

text \<open>The apostrophe, the double quote, the multiplication and the division sign.\<close>

definition apos :: char where "apos = CHR 0x27"
definition dquote :: char where "dquote = CHR 0x22"
definition times_sign :: char where "times_sign = CHR 0xD7"
definition division_sign :: char where "division_sign = CHR 0xF7"

text \<open>\<open>(?:\?|$)\<close> and \<open>(?:in|at|for)\<close>, \<open>(?:in|at)\<close>, \<open>(?:'s| is)\<close>\<close>

definition qmark_or_end :: re where
  "qmark_or_end = Alt (chr CHR ''?'') Eol"

definition in_at_for :: re where
  "in_at_for = words [''in'', ''at'', ''for'']"

definition in_at :: re where
  "in_at = words [''in'', ''at'']"

definition s_or_is :: re where
  "s_or_is = Alt (Seq (chr apos) (chr CHR ''s'')) (str '' is'')"

subsection \<open>Time\<close>

definition timePatterns :: "re list" where
  "timePatterns =
    [seqs [str ''what'', s_or_is, Opt (str '' the''), str '' '', Opt (str ''current ''),
           str ''time '', in_at_for, str '' '', Grp 1 (LazyPlus ADot),
           alts [chr CHR ''?'', Eol, str ''right now'', str ''now'']],
     seqs [Opt (str ''current ''), str ''time '', in_at_for, str '' '', Grp 1 (LazyPlus ADot),
           qmark_or_end],
     seqs [str ''what time is it '', in_at, str '' '', Grp 1 (LazyPlus ADot), qmark_or_end],
     seqs [str ''tell me '', Opt (str ''the ''), str ''time '', in_at_for, str '' '',
           Grp 1 (LazyPlus ADot), qmark_or_end],
     seqs [Grp 1 (LazyPlus ADot), str '' time'',
           alts [chr CHR ''?'', Eol, str '' right now'', str '' now'', str '' please'']],
     seqs [str ''time '', in_at, str '' '', Grp 1 (Plus ADot)],
     seqs [str ''what'', s_or_is, str '' the time '', in_at, str '' '', Grp 1 (Plus ADot)],
     seqs [str ''do you know '', Opt (str ''the ''), str ''time '', in_at_for, str '' '',
           Grp 1 (Plus ADot)]]"

text \<open>
  \<open>match[1].replace(/\?/g, '').replace(/right now|now|please|currently|at the moment/gi, '').trim()\<close>
\<close>

definition clean_location :: "string \<Rightarrow> string" where
  "clean_location g =
     trim (js_replace_all True
             (words [''right now'', ''now'', ''please'', ''currently'', ''at the moment'']) []
             (js_replace_all False (chr CHR ''?'') [] g))"

text \<open>\<open>/^(what|the|is|it|me|you|a|an)$/i\<close>\<close>

definition location_stoplist :: re where
  "location_stoplist =
     seqs [Bol, Grp 1 (words [''what'', ''the'', ''is'', ''it'', ''me'', ''you'', ''a'', ''an'']), Eol]"

fun time_loop :: "re list \<Rightarrow> string \<Rightarrow> analysis \<Rightarrow> analysis" where
  "time_loop [] lower a = a"
| "time_loop (pattern # patterns) lower a =
     (case js_match True pattern lower of
        None \<Rightarrow> time_loop patterns lower a
      | Some mt \<Rightarrow>
          (case group lower mt 1 of
             None \<Rightarrow> time_loop patterns lower a
           | Some g \<Rightarrow>
               if g = [] then time_loop patterns lower a
               else (let location = clean_location g in
                     if location \<noteq> [] \<and> length location > 1
                        \<and> \<not> js_test True location_stoplist location
                     then a\<lparr>needsTime := True, timeLocation := Some location,
                            primaryIntent := Some ''time'', confidence := 95 / 100\<rparr>
                     else time_loop patterns lower a)))"

text \<open>\<open>/\b(what time|current time|time now|what's the time)\b/i\<close>\<close>

definition general_time_re :: re where
  "general_time_re =
     seqs [WordB, Grp 1 (alts [str ''what time'', str ''current time'', str ''time now'',
                               seqs [str ''what'', chr apos, str ''s the time'']]), WordB]"

definition detect_general_time :: "string \<Rightarrow> analysis \<Rightarrow> analysis" where
  "detect_general_time lower a =
     (if needsTime a then a
      else if js_test True general_time_re lower
      then a\<lparr>needsTime := True, timeLocation := Some ''UTC'',
             primaryIntent := Some ''time'', confidence := 8 / 10\<rparr>
      else a)"

subsection \<open>Date\<close>

text \<open>
  \<open>/\b(what(?:'s| is) (?:the )?date|today(?:'s)? date|current date|what day|day of (?:the )?week|what is today)\b/i\<close>
\<close>

definition date_re :: re where
  "date_re =
     seqs [WordB,
           Grp 1 (alts [seqs [str ''what'', s_or_is, str '' '', Opt (str ''the ''), str ''date''],
                        seqs [str ''today'', Opt (Seq (chr apos) (chr CHR ''s'')), str '' date''],
                        str ''current date'',
                        str ''what day'',
                        seqs [str ''day of '', Opt (str ''the ''), str ''week''],
                        str ''what is today'']),
           WordB]"

definition detect_date :: "string \<Rightarrow> analysis \<Rightarrow> analysis" where
  "detect_date lower a =
     (if js_test True date_re lower
      then set_primary ''date'' (9 / 10) (a\<lparr>needsDate := True\<rparr>)
      else a)"

subsection \<open>Weather\<close>

definition weatherPatterns :: "re list" where
  "weatherPatterns =
    [seqs [str ''weather'', Plus sp, Opt (Seq (str ''in'') (Plus sp)), Grp 1 (LazyPlus ADot),
           qmark_or_end],
     seqs [Alt (seqs [str ''what'', s_or_is, Opt (str '' the''), str '' weather''])
               (seqs [str ''how'', s_or_is, Opt (str '' the''), str '' weather'']),
           Plus sp, in_at_for, Plus sp, Grp 1 (LazyPlus ADot), qmark_or_end],
     seqs [str ''temperature'', Plus sp, Opt (Seq (str ''in'') (Plus sp)), Grp 1 (LazyPlus ADot),
           qmark_or_end],
     seqs [words [''is it'', ''will it''], Plus sp,
           words [''rain'', ''snow'', ''sunny'', ''cloudy'', ''hot'', ''cold''], Plus sp,
           Opt (Seq (str ''in'') (Plus sp)), Grp 1 (LazyPlus ADot), qmark_or_end],
     seqs [str ''forecast'', Plus sp, Opt (Seq (str ''for'') (Plus sp)), Grp 1 (LazyPlus ADot),
           qmark_or_end],
     seqs [words [''how hot'', ''how cold''], Plus sp, Opt (Seq (str ''is it'') (Plus sp)),
           Opt (Seq (str ''in'') (Plus sp)), Grp 1 (LazyPlus ADot), qmark_or_end]]"

text \<open>\<open>match[1]?.trim() || "New York"\<close>\<close>

definition weather_location_of :: "string option \<Rightarrow> string" where
  "weather_location_of g =
     (case g of None \<Rightarrow> ''New York''
      | Some t \<Rightarrow> if trim t = [] then ''New York'' else trim t)"

fun weather_loop :: "re list \<Rightarrow> string \<Rightarrow> analysis \<Rightarrow> analysis" where
  "weather_loop [] lower a = a"
| "weather_loop (pattern # patterns) lower a =
     (case js_match True pattern lower of
        None \<Rightarrow> weather_loop patterns lower a
      | Some mt \<Rightarrow>
          set_primary ''weather'' (95 / 100)
            (a\<lparr>needsWeather := True,
               weatherLocation := Some (weather_location_of (group lower mt 1))\<rparr>))"

subsection \<open>Currency\<close>

text \<open>\<open>/convert\s+(\d+(?:\.\d+)?)\s*(\w+)\s+to\s+(\w+)/i\<close>\<close>

definition currency_convert_re :: re where
  "currency_convert_re =
     seqs [str ''convert'', Plus sp,
           Grp 1 (Seq (Plus dg) (Opt (Seq (chr CHR ''.'') (Plus dg)))),
           Star sp, Grp 2 (Plus wd), Plus sp, str ''to'', Plus sp, Grp 3 (Plus wd)]"

text \<open>
  The three groups are not optional, so they are all present in a match; the last case
  does not arise. This block assigns \<open>primaryIntent\<close> and \<open>confidence\<close> without testing
  whether an earlier block has set them.
\<close>

definition detect_currency_convert ::
    "(string \<Rightarrow> js_number) \<Rightarrow> string \<Rightarrow> analysis \<Rightarrow> analysis" where
  "detect_currency_convert parse lower a =
     (case js_match True currency_convert_re lower of
        None \<Rightarrow> a
      | Some mt \<Rightarrow>
          (case (group lower mt 1, group lower mt 2, group lower mt 3) of
             (Some amount, Some from, Some to) \<Rightarrow>
               a\<lparr>needsCurrency := True,
                  currencyAmount := Some (parse amount),
                  currencyFrom := Some (toUpperCase from),
                  currencyTo := Some (toUpperCase to),
                  primaryIntent := Some ''currency_convert'',
                  confidence := 95 / 100\<rparr>
           | _ \<Rightarrow> a))"

text \<open>\<open>/\b(exchange rate|currency rate|forex|usd to|eur to|gbp to)\b/i\<close>\<close>

definition currency_rate_re :: re where
  "currency_rate_re =
     seqs [WordB, Grp 1 (words [''exchange rate'', ''currency rate'', ''forex'', ''usd to'',
                                ''eur to'', ''gbp to'']), WordB]"

definition detect_currency_rate :: "string \<Rightarrow> analysis \<Rightarrow> analysis" where
  "detect_currency_rate lower a =
     (if js_test True currency_rate_re lower
      then set_primary ''currency'' (85 / 100) (a\<lparr>needsCurrency := True\<rparr>)
      else a)"

subsection \<open>Crypto\<close>

definition cryptoNames :: "string list" where
  "cryptoNames = [''bitcoin'', ''btc'', ''ethereum'', ''eth'', ''dogecoin'', ''doge'', ''litecoin'',
                  ''ripple'', ''xrp'', ''cardano'', ''ada'', ''solana'', ''sol'', ''polkadot'']"

text \<open>
  \<open>crypto.replace('btc', 'bitcoin').replace('eth', 'ethereum').replace('doge', 'dogecoin')\<close>:
  each call replaces the first occurrence of its first argument.
\<close>

definition crypto_alias :: "string \<Rightarrow> string" where
  "crypto_alias crypto =
     replace_str ''doge'' ''dogecoin''
       (replace_str ''eth'' ''ethereum'' (replace_str ''btc'' ''bitcoin'' crypto))"

fun crypto_loop :: "string list \<Rightarrow> string \<Rightarrow> analysis \<Rightarrow> analysis" where
  "crypto_loop [] lower a = a"
| "crypto_loop (crypto # cryptos) lower a =
     (if js_includes lower crypto
      then set_primary ''crypto'' (9 / 10)
             (a\<lparr>needsCrypto := True, cryptoName := Some (crypto_alias crypto)\<rparr>)
      else crypto_loop cryptos lower a)"

text \<open>\<open>/\b(crypto price|cryptocurrency|top crypto|crypto market)\b/i\<close>\<close>

definition crypto_market_re :: re where
  "crypto_market_re =
     seqs [WordB, Grp 1 (words [''crypto price'', ''cryptocurrency'', ''top crypto'',
                                ''crypto market'']), WordB]"

definition detect_crypto_market :: "string \<Rightarrow> analysis \<Rightarrow> analysis" where
  "detect_crypto_market lower a =
     (if js_test True crypto_market_re lower
      then set_primary ''crypto'' (85 / 100) (a\<lparr>needsCrypto := True, cryptoName := Some ''top''\<rparr>)
      else a)"

subsection \<open>Dictionary\<close>

text \<open>
  \<open>/(?:define|definition of|meaning of|what does|what is a|what's a)\s+['""]?(\w+)['""]?/i\<close>
\<close>

definition quote_class :: atom where
  "quote_class = ACls False [C apos, C dquote, C dquote]"

definition dict_re :: re where
  "dict_re =
     seqs [alts [str ''define'', str ''definition of'', str ''meaning of'', str ''what does'',
                 str ''what is a'', seqs [str ''what'', chr apos, str ''s a'']],
           Plus sp, Opt (Atom quote_class), Grp 1 (Plus wd), Opt (Atom quote_class)]"

definition detect_dictionary :: "string \<Rightarrow> analysis \<Rightarrow> analysis" where
  "detect_dictionary lower a =
     (case js_match True dict_re lower of
        None \<Rightarrow> a
      | Some mt \<Rightarrow>
          (case group lower mt 1 of
             Some w \<Rightarrow>
               set_primary ''dictionary'' (95 / 100)
                 (a\<lparr>needsDictionary := True, searchTerms := searchTerms a @ [w]\<rparr>)
           | None \<Rightarrow> a))"

subsection \<open>Math\<close>

text \<open>
  \<open>/(?:calculate|compute|what is|what's)\s+(.+?)(?:\?|$)/i\<close>, the test
  \<open>/[\d\+\-\*\/\^x\<times>\<div>=\(\)]/\<close> on its group, and the two replacements
  \<open>.replace(/x|\<times>/g, '*').replace(/\<div>/g, '/')\<close>.
\<close>

definition math_re :: re where
  "math_re =
     seqs [alts [str ''calculate'', str ''compute'', str ''what is'',
                 seqs [str ''what'', chr apos, str ''s'']],
           Plus sp, Grp 1 (LazyPlus ADot), qmark_or_end]"

definition math_char_re :: re where
  "math_char_re =
     Atom (ACls False [Digit, C CHR ''+'', C CHR ''-'', C CHR ''*'', C CHR ''/'', C CHR ''^'',
                       C CHR ''x'', C times_sign, C division_sign, C CHR ''='',
                       C CHR ''('', C CHR '')''])"

definition to_math_expression :: "string \<Rightarrow> string" where
  "to_math_expression t =
     js_replace_all False (chr division_sign) ''/''
       (js_replace_all False (Alt (chr CHR ''x'') (chr times_sign)) ''*'' t)"

definition detect_math :: "string \<Rightarrow> analysis \<Rightarrow> analysis" where
  "detect_math lower a =
     (case js_match True math_re lower of
        None \<Rightarrow> a
      | Some mt \<Rightarrow>
          (case group lower mt 1 of
             Some g \<Rightarrow>
               if js_test False math_char_re g
               then set_primary ''math'' (9 / 10)
                      (a\<lparr>needsMath := True, mathExpression := Some (to_math_expression g)\<rparr>)
               else a
           | None \<Rightarrow> a))"

text \<open>
  \<open>/^[\d\s\+\-\*\/\^x\<times>\<div>\(\)\.]+$/\<close>. This block, too, assigns \<open>primaryIntent\<close> and
  \<open>confidence\<close> without a test.
\<close>

definition direct_math_class :: atom where
  "direct_math_class =
     ACls False [Digit, Space, C CHR ''+'', C CHR ''-'', C CHR ''*'', C CHR ''/'', C CHR ''^'',
                 C CHR ''x'', C times_sign, C division_sign, C CHR ''('', C CHR '')'',
                 C CHR ''.'']"

definition direct_math_re :: re where
  "direct_math_re = seqs [Bol, Plus direct_math_class, Eol]"

definition detect_direct_math :: "string \<Rightarrow> analysis \<Rightarrow> analysis" where
  "detect_direct_math lower a =
     (if js_test False direct_math_re lower
      then a\<lparr>needsMath := True, mathExpression := Some (to_math_expression lower),
             primaryIntent := Some ''math'', confidence := 95 / 100\<rparr>
      else a)"

subsection \<open>Entertainment\<close>

definition quote_re :: re where
  "quote_re = seqs [WordB, Grp 1 (words [''quote'', ''inspiration'', ''motivat'', ''wisdom'']), WordB]"

definition joke_re :: re where
  "joke_re = seqs [WordB, Grp 1 (words [''joke'', ''funny'', ''make me laugh'', ''humor'']), WordB]"

definition trivia_re :: re where
  "trivia_re =
     seqs [WordB, Grp 1 (words [''trivia'', ''quiz'', ''fun fact'', ''did you know'',
                                ''random fact'']), WordB]"

definition detect_quote :: "string \<Rightarrow> analysis \<Rightarrow> analysis" where
  "detect_quote lower a =
     (if js_test True quote_re lower
      then set_primary ''quote'' (85 / 100) (a\<lparr>needsQuote := True\<rparr>) else a)"

definition detect_joke :: "string \<Rightarrow> analysis \<Rightarrow> analysis" where
  "detect_joke lower a =
     (if js_test True joke_re lower
      then set_primary ''joke'' (9 / 10) (a\<lparr>needsJoke := True\<rparr>) else a)"

definition detect_trivia :: "string \<Rightarrow> analysis \<Rightarrow> analysis" where
  "detect_trivia lower a =
     (if js_test True trivia_re lower
      then set_primary ''trivia'' (85 / 100) (a\<lparr>needsTrivia := True\<rparr>) else a)"

subsection \<open>General knowledge\<close>

definition knowledgePatterns :: "re list" where
  "knowledgePatterns =
    [seqs [WordB, Grp 1 (words [''what is'', ''who is'', ''what are'', ''who are'', ''explain'',
                                ''tell me about'', ''describe'']), WordB],
     seqs [WordB, Grp 1 (words [''history of'', ''biography of'', ''how does'', ''how do'',
                                ''why is'', ''why are'']), WordB]]"

text \<open>
  \<open>/(?:what is|who is|explain|tell me about|describe|history of|how does)\s+(?:the\s+)?(.+?)(?:\?|$)/i\<close>
\<close>

definition search_term_re :: re where
  "search_term_re =
     seqs [words [''what is'', ''who is'', ''explain'', ''tell me about'', ''describe'',
                  ''history of'', ''how does''],
           Plus sp, Opt (Seq (str ''the'') (Plus sp)), Grp 1 (LazyPlus ADot), qmark_or_end]"

definition push_search_match :: "string \<Rightarrow> analysis \<Rightarrow> analysis" where
  "push_search_match lower a =
     (case js_match True search_term_re lower of
        None \<Rightarrow> a
      | Some mt \<Rightarrow>
          (case group lower mt 1 of
             Some g \<Rightarrow> a\<lparr>searchTerms := searchTerms a @ [trim g]\<rparr>
           | None \<Rightarrow> a))"

definition detect_knowledge :: "string \<Rightarrow> analysis \<Rightarrow> analysis" where
  "detect_knowledge lower a =
     (if list_ex (\<lambda>p. js_test True p lower) knowledgePatterns
         \<and> \<not> needsTime a \<and> \<not> needsWeather a \<and> \<not> needsMath a
      then set_primary ''knowledge'' (8 / 10)
             (push_search_match lower (a\<lparr>needsWikipedia := True\<rparr>))
      else a)"

subsection \<open>Web search fallback\<close>

definition strip_qmarks :: "string \<Rightarrow> string" where
  "strip_qmarks s = js_replace_all False (chr CHR ''?'') [] s"

definition detect_web_search :: "string \<Rightarrow> analysis \<Rightarrow> analysis" where
  "detect_web_search message a =
     (if primaryIntent a = None \<and> length (trim message) > 3
      then a\<lparr>needsWebSearch := True,
             searchTerms := searchTerms a @ [trim (strip_qmarks message)],
             primaryIntent := Some ''web_search'',
             confidence := 5 / 10\<rparr>
      else a)"

text \<open>
  \<open>/\?$/\<close> and
  \<open>/^(what|who|when|where|why|how|is|are|was|were|can|could|do|does|did)\s+/i\<close>
\<close>

definition ends_with_qmark_re :: re where
  "ends_with_qmark_re = Seq (chr CHR ''?'') Eol"

definition question_word_re :: re where
  "question_word_re =
     seqs [Bol, Grp 1 (words [''what'', ''who'', ''when'', ''where'', ''why'', ''how'', ''is'',
                              ''are'', ''was'', ''were'', ''can'', ''could'', ''do'', ''does'',
                              ''did'']), Plus sp]"

definition clean_query :: "string \<Rightarrow> string" where
  "clean_query message = trim (js_replace True question_word_re [] (strip_qmarks message))"

definition detect_question :: "string \<Rightarrow> analysis \<Rightarrow> analysis" where
  "detect_question message a =
     (if js_test False ends_with_qmark_re (trim message) \<and> primaryIntent a = None
      then (a\<lparr>needsWebSearch := True, needsWikipedia := True,
              searchTerms := (if clean_query message \<noteq> []
                              then searchTerms a @ [clean_query message]
                              else searchTerms a)\<rparr>)
             \<lparr>primaryIntent := Some ''question'', confidence := 6 / 10\<rparr>
      else a)"

subsection \<open>The analyzer\<close>

definition analyzeQuery :: "(string \<Rightarrow> js_number) \<Rightarrow> string \<Rightarrow> analysis" where
  "analyzeQuery parse message =
     (let lower = toLowerCase message;
          a = time_loop timePatterns lower initial_analysis;
          a = detect_general_time lower a;
          a = detect_date lower a;
          a = weather_loop weatherPatterns lower a;
          a = detect_currency_convert parse lower a;
          a = detect_currency_rate lower a;
          a = crypto_loop cryptoNames lower a;
          a = detect_crypto_market lower a;
          a = detect_dictionary lower a;
          a = detect_math lower a;
          a = detect_direct_math lower a;
          a = detect_quote lower a;
          a = detect_joke lower a;
          a = detect_trivia lower a;
          a = detect_knowledge lower a;
          a = detect_web_search message a
      in detect_question message a)"

text \<open>
  \<open>needsWebSearchFallback(results)\<close>: no value of the results object is other than
  \<open>null\<close> or \<open>undefined\<close>. The values are given as a list, \<open>None\<close> for those two.
\<close>

definition needsWebSearchFallback :: "'v option list \<Rightarrow> bool" where
  "needsWebSearchFallback values = (\<not> list_ex (\<lambda>r. r \<noteq> None) values)"


text \<open>
  For the statements about precedence: the blocks that come after the time block and
  set \<open>primaryIntent\<close> only when it is still \<open>null\<close>, in the order of the source; and, for
  those that belong to a category, the flag, the intent name and the confidence of each.
\<close>

definition guarded_blocks :: "string \<Rightarrow> string \<Rightarrow> (analysis \<Rightarrow> analysis) list" where
  "guarded_blocks lower message =
     [detect_date lower, weather_loop weatherPatterns lower, detect_currency_rate lower,
      crypto_loop cryptoNames lower, detect_crypto_market lower, detect_dictionary lower,
      detect_math lower, detect_quote lower, detect_joke lower, detect_trivia lower,
      detect_knowledge lower, detect_web_search message, detect_question message]"

definition guarded_intents ::
    "string \<Rightarrow> ((analysis \<Rightarrow> analysis) \<times> (analysis \<Rightarrow> bool) \<times> string \<times> rat) list" where
  "guarded_intents lower =
     [(detect_date lower, needsDate, ''date'', 9 / 10),
      (weather_loop weatherPatterns lower, needsWeather, ''weather'', 95 / 100),
      (detect_currency_rate lower, needsCurrency, ''currency'', 85 / 100),
      (crypto_loop cryptoNames lower, needsCrypto, ''crypto'', 9 / 10),
      (detect_crypto_market lower, needsCrypto, ''crypto'', 85 / 100),
      (detect_dictionary lower, needsDictionary, ''dictionary'', 95 / 100),
      (detect_math lower, needsMath, ''math'', 9 / 10),
      (detect_quote lower, needsQuote, ''quote'', 85 / 100),
      (detect_joke lower, needsJoke, ''joke'', 9 / 10),
      (detect_trivia lower, needsTrivia, ''trivia'', 85 / 100),
      (detect_knowledge lower, needsWikipedia, ''knowledge'', 8 / 10)]"

text \<open>The time block: the loop over the patterns and the general time query.\<close>

definition detect_time :: "string \<Rightarrow> analysis \<Rightarrow> analysis" where
  "detect_time lower a = detect_general_time lower (time_loop timePatterns lower a)"

text \<open>The words of the stoplist.\<close>

definition stop_words :: "string list" where
  "stop_words = [''what'', ''the'', ''is'', ''it'', ''me'', ''you'', ''a'', ''an'']"

section \<open>services/webSearchService.js\<close>

text \<open>
  The values held by the fields of a source result: \<open>undefined\<close> (a field that is not
  there), \<open>null\<close>, a text, or an array (its elements kept as texts). An empty text is falsy,
  an array never is.
\<close>

datatype jsval = Undefined | Null | Str string | Arr "string list"

fun truthy :: "jsval \<Rightarrow> bool" where
  "truthy Undefined = False"
| "truthy Null = False"
| "truthy (Str s) = (s \<noteq> [])"
| "truthy (Arr xs) = True"

text \<open>\<open>a || b\<close>\<close>

definition or_else :: "jsval \<Rightarrow> jsval \<Rightarrow> jsval" where
  "or_else a b = (if truthy a then a else b)"

text \<open>
  The object a source function returns. The confidence is a finite number, kept as an
  exact fraction; it is falsy when it is 0.
\<close>

record result =
  r_type :: string
  r_source :: jsval
  r_confidence :: rat
  r_answer :: jsval
  r_title :: jsval
  r_url :: jsval
  r_image :: jsval
  r_meanings :: jsval
  r_word :: jsval
  r_phonetic :: jsval
  r_results :: jsval
  r_topics :: jsval

text \<open>The object \<open>formattedAnswer\<close> built by \<open>determineBestAnswer\<close>.\<close>

record formatted =
  f_type :: string
  f_source :: jsval
  f_confidence :: rat
  f_content :: jsval
  f_title :: jsval
  f_url :: jsval
  f_image :: jsval
  f_word :: jsval
  f_phonetic :: jsval

text \<open>
  \<open>Array.prototype.sort\<close> with a comparator is stable: elements that compare equal keep
  their order. Each element, from the last to the first, is put in front of the first
  element it does not have to come after.
\<close>

fun insert_sorted :: "('a \<Rightarrow> 'a \<Rightarrow> rat) \<Rightarrow> 'a \<Rightarrow> 'a list \<Rightarrow> 'a list" where
  "insert_sorted cmp x [] = [x]"
| "insert_sorted cmp x (y # ys) =
     (if cmp x y \<le> 0 then x # y # ys else y # insert_sorted cmp x ys)"

definition js_sort :: "('a \<Rightarrow> 'a \<Rightarrow> rat) \<Rightarrow> 'a list \<Rightarrow> 'a list" where
  "js_sort cmp xs = foldr (insert_sorted cmp) xs []"

text \<open>\<open>results.filter(r => r && r.confidence)\<close>; a \<open>null\<close> element is \<open>None\<close>.\<close>

fun with_confidence :: "result option list \<Rightarrow> result list" where
  "with_confidence [] = []"
| "with_confidence (None # rs) = with_confidence rs"
| "with_confidence (Some r # rs) =
     (if r_confidence r \<noteq> 0 then r # with_confidence rs else with_confidence rs)"

definition format_best :: "result \<Rightarrow> formatted" where
  "format_best best =
     (let formattedAnswer =
            \<lparr>f_type = r_type best, f_source = r_source best, f_confidence = r_confidence best,
             f_content = Null, f_title = Undefined, f_url = Undefined, f_image = Undefined,
             f_word = Undefined, f_phonetic = Undefined\<rparr>
      in if r_type best = ''instant_answer''
         then formattedAnswer\<lparr>f_content := r_answer best\<rparr>
         else if r_type best = ''abstract'' \<or> r_type best = ''encyclopedia''
         then formattedAnswer\<lparr>f_content := r_answer best, f_title := r_title best,
                               f_url := r_url best, f_image := r_image best\<rparr>
         else if r_type best = ''definition''
         then formattedAnswer\<lparr>f_content := r_answer best\<rparr>
         else if r_type best = ''dictionary''
         then formattedAnswer\<lparr>f_content := r_meanings best, f_word := r_word best,
                               f_phonetic := r_phonetic best\<rparr>
         else if r_type best = ''stackoverflow_answer''
         then formattedAnswer\<lparr>f_content := r_answer best, f_title := r_title best,
                               f_url := r_url best\<rparr>
         else if r_type best = ''related''
         then formattedAnswer\<lparr>f_content := r_topics best\<rparr>
         else formattedAnswer\<lparr>f_content :=
                or_else (or_else (r_answer best) (r_results best)) (r_topics best)\<rparr>)"

text \<open>The comparator \<open>(a, b) => b.confidence - a.confidence\<close>\<close>

definition by_confidence :: "result \<Rightarrow> result \<Rightarrow> rat" where
  "by_confidence a b = r_confidence b - r_confidence a"

definition determineBestAnswer :: "result option list \<Rightarrow> string \<Rightarrow> formatted option" where
  "determineBestAnswer results query =
     (if results = [] then None
      else (case js_sort by_confidence (with_confidence results) of
              [] \<Rightarrow> None
            | best # _ \<Rightarrow> Some (format_best best)))"

text \<open>
  For the statement of the ranking: \<open>b\<close> is the first element of \<open>xs\<close> that has the
  greatest confidence.
\<close>

definition first_best :: "result list \<Rightarrow> result \<Rightarrow> bool" where
  "first_best xs b =
     (\<exists>pre post. xs = pre @ b # post
        \<and> (\<forall>r\<in>set pre. r_confidence r < r_confidence b)
        \<and> (\<forall>r\<in>set post. r_confidence r \<le> r_confidence b))"

subsection \<open>The source functions\<close>

text \<open>
  A promise settles as fulfilled with a value or as rejected. The answers of the
  providers behind the source functions are not part of the program: they are given by
  \<open>sources\<close>, one function per provider, from the argument of the call to the way the
  promise returned by the source function settles (\<open>None\<close> is \<open>null\<close>).
\<close>

datatype 'a settled = Fulfilled 'a | Rejected

record sources =
  duckDuckGo :: "string \<Rightarrow> result option settled"
  wikipedia :: "string \<Rightarrow> result option settled"
  wikipediaExtracts :: "string \<Rightarrow> result option settled"
  stackExchange :: "string \<Rightarrow> result option settled"
  dictionaryApi :: "string \<Rightarrow> result option settled"

datatype source_call =
    SearchDuckDuckGo string
  | SearchWikipedia string
  | SearchWikipediaExtracts string
  | SearchStackExchange string
  | SearchWolframAlpha string
  | SearchDictionary string

definition techKeywords :: "string list" where
  "techKeywords = [''code'', ''programming'', ''javascript'', ''python'', ''java'', ''how to'',
                   ''error'', ''bug'', ''function'', ''api'', ''database'', ''sql'', ''html'', ''css'',
                   ''react'', ''node'', ''npm'', ''git'', ''linux'', ''windows'', ''mac'']"

text \<open>
  \<open>searchStackExchange\<close> asks the provider only for a query that contains one of the
  keywords; \<open>searchWolframAlpha\<close> returns \<open>null\<close> on each of its paths.
\<close>

definition searchStackExchange :: "sources \<Rightarrow> string \<Rightarrow> result option settled" where
  "searchStackExchange src query =
     (if \<not> list_ex (\<lambda>kw. js_includes (toLowerCase query) kw) techKeywords
      then Fulfilled None
      else stackExchange src query)"

definition searchWolframAlpha :: "string \<Rightarrow> result option settled" where
  "searchWolframAlpha query = Fulfilled None"

fun run_source :: "sources \<Rightarrow> source_call \<Rightarrow> result option settled" where
  "run_source src (SearchDuckDuckGo q) = duckDuckGo src q"
| "run_source src (SearchWikipedia q) = wikipedia src q"
| "run_source src (SearchWikipediaExtracts q) = wikipediaExtracts src q"
| "run_source src (SearchStackExchange q) = searchStackExchange src q"
| "run_source src (SearchWolframAlpha q) = searchWolframAlpha q"
| "run_source src (SearchDictionary w) = dictionaryApi src w"

subsection \<open>performWebSearch\<close>

record web_results =
  w_query :: string
  w_sources :: "jsval list"
  w_bestAnswer :: "formatted option"
  w_allResults :: "result list"
  w_searchedAt :: int

text \<open>
  The state threaded through the search functions: the shared cache and the log of the
  source functions called so far.
\<close>

record search_state =
  web_cache :: "web_results SmartCache"
  calls :: "source_call list"

definition call_source :: "sources \<Rightarrow> source_call \<Rightarrow> search_state \<Rightarrow>
    result option settled \<times> search_state" where
  "call_source src c st = (run_source src c, st\<lparr>calls := calls st @ [c]\<rparr>)"

text \<open>
  \<open>Promise.allSettled\<close> followed by the loop that keeps the values of the fulfilled
  promises that are not \<open>null\<close>.
\<close>

fun collect_fulfilled :: "result option settled list \<Rightarrow> result list" where
  "collect_fulfilled [] = []"
| "collect_fulfilled (Fulfilled (Some v) # rs) = v # collect_fulfilled rs"
| "collect_fulfilled (_ # rs) = collect_fulfilled rs"

text \<open>\<open>`websearch_${query.toLowerCase().replace(/\s+/g, '_')}`\<close>\<close>

definition websearch_key :: "string \<Rightarrow> string" where
  "websearch_key query =
     ''websearch_'' @ js_replace_all False (Plus (ACls False [Space])) ''_'' (toLowerCase query)"

text \<open>
  \<open>performWebSearch\<close>; \<open>t0\<close> is the clock when the function starts (the cache lookup and
  \<open>searchedAt\<close>), \<open>t1\<close> the clock when all five promises have settled (the cache write).
\<close>

definition performWebSearch :: "sources \<Rightarrow> int \<Rightarrow> int \<Rightarrow> string \<Rightarrow> search_state \<Rightarrow>
    web_results \<times> search_state" where
  "performWebSearch src t0 t1 query st =
     (case SmartCache_get t0 (websearch_key query) 1800000 (web_cache st) of
        (Some cached, c) \<Rightarrow> (cached, st\<lparr>web_cache := c\<rparr>)
      | (None, c) \<Rightarrow>
          (let searchCalls = [SearchDuckDuckGo query, SearchWikipedia query,
                              SearchWikipediaExtracts query, SearchStackExchange query,
                              SearchWolframAlpha query];
               allResults = collect_fulfilled (map (run_source src) searchCalls);
               results = \<lparr>w_query = query,
                          w_sources = map r_source allResults,
                          w_bestAnswer = determineBestAnswer (map Some allResults) query,
                          w_allResults = allResults,
                          w_searchedAt = t0\<rparr>;
               c' = (if w_bestAnswer results \<noteq> None \<or> allResults \<noteq> []
                     then snd (SmartCache_set t1 (websearch_key query) results 1800000 c)
                     else c)
           in (results, st\<lparr>web_cache := c', calls := calls st @ searchCalls\<rparr>)))"

subsection \<open>smartSearch\<close>

text \<open>
  The object returned by \<open>smartSearch\<close>; \<open>result\<close> is a source result as it came, or the
  formatted best answer of the full search.
\<close>

datatype answer = Source result | Best formatted

record smart_answer =
  found :: bool
  result :: "answer option"
  fallbackUsed :: "bool option"
  allResults :: "result list option"
  partialResults :: "result list option"
  message :: "string option"

definition found_answer :: "answer \<Rightarrow> bool \<Rightarrow> smart_answer" where
  "found_answer r fb =
     \<lparr>found = True, result = Some r, fallbackUsed = Some fb, allResults = None,
      partialResults = None, message = None\<rparr>"

text \<open>\<open>/(?:define|meaning of|what is a|what's a)\s+(\w+)/i\<close>\<close>

definition definition_query_re :: re where
  "definition_query_re =
     seqs [alts [str ''define'', str ''meaning of'', str ''what is a'',
                 seqs [str ''what'', chr apos, str ''s a'']],
           Plus sp, Grp 1 (Plus wd)]"

text \<open>
  The chain. An \<open>await\<close> of a rejected promise throws, and \<open>smartSearch\<close> has no handler:
  its own promise is then rejected. Each step runs only when the steps before it have
  not returned.
\<close>

definition step5 :: "sources \<Rightarrow> int \<Rightarrow> int \<Rightarrow> string \<Rightarrow> search_state \<Rightarrow>
    smart_answer settled \<times> search_state" where
  "step5 src t0 t1 query st =
     (case performWebSearch src t0 t1 query st of
        (fullSearch, st') \<Rightarrow>
          (case w_bestAnswer fullSearch of
             Some best \<Rightarrow>
               (Fulfilled ((found_answer (Best best) True)
                             \<lparr>allResults := Some (w_allResults fullSearch)\<rparr>), st')
           | None \<Rightarrow>
               if w_allResults fullSearch \<noteq> []
               then (Fulfilled \<lparr>found = False, result = None, fallbackUsed = None,
                                allResults = None,
                                partialResults = Some (w_allResults fullSearch),
                                message = Some (''Couldn'' @ [apos] @
                                  ''t find a definitive answer, but here are some related results'')\<rparr>,
                     st')
               else (Fulfilled \<lparr>found = False, result = None, fallbackUsed = None,
                                allResults = None, partialResults = None,
                                message = Some ''No results found''\<rparr>, st')))"

definition step4 :: "sources \<Rightarrow> int \<Rightarrow> int \<Rightarrow> string \<Rightarrow> search_state \<Rightarrow>
    smart_answer settled \<times> search_state" where
  "step4 src t0 t1 query st =
     (case call_source src (SearchStackExchange query) st of
        (Rejected, st') \<Rightarrow> (Rejected, st')
      | (Fulfilled (Some stackResult), st') \<Rightarrow>
          (Fulfilled (found_answer (Source stackResult) True), st')
      | (Fulfilled None, st') \<Rightarrow> step5 src t0 t1 query st')"

definition step3 :: "sources \<Rightarrow> int \<Rightarrow> int \<Rightarrow> string \<Rightarrow> search_state \<Rightarrow>
    smart_answer settled \<times> search_state" where
  "step3 src t0 t1 query st =
     (case js_match True definition_query_re (toLowerCase query) of
        None \<Rightarrow> step4 src t0 t1 query st
      | Some ws \<Rightarrow>
          (case group (toLowerCase query) ws 1 of
             None \<Rightarrow> step4 src t0 t1 query st
           | Some w \<Rightarrow>
               (case call_source src (SearchDictionary w) st of
                  (Rejected, st') \<Rightarrow> (Rejected, st')
                | (Fulfilled (Some dictResult), st') \<Rightarrow>
                    (Fulfilled (found_answer (Source dictResult) True), st')
                | (Fulfilled None, st') \<Rightarrow> step4 src t0 t1 query st')))"

definition step2 :: "sources \<Rightarrow> int \<Rightarrow> int \<Rightarrow> string \<Rightarrow> search_state \<Rightarrow>
    smart_answer settled \<times> search_state" where
  "step2 src t0 t1 query st =
     (case call_source src (SearchWikipedia query) st of
        (Rejected, st') \<Rightarrow> (Rejected, st')
      | (Fulfilled wikiResult, st') \<Rightarrow>
          (case wikiResult of
             Some r \<Rightarrow>
               if truthy (r_answer r) then (Fulfilled (found_answer (Source r) True), st')
               else step3 src t0 t1 query st'
           | None \<Rightarrow> step3 src t0 t1 query st'))"

definition smartSearch :: "sources \<Rightarrow> int \<Rightarrow> int \<Rightarrow> string \<Rightarrow> search_state \<Rightarrow>
    smart_answer settled \<times> search_state" where
  "smartSearch src t0 t1 query st =
     (case call_source src (SearchDuckDuckGo query) st of
        (Rejected, st') \<Rightarrow> (Rejected, st')
      | (Fulfilled ddgResult, st') \<Rightarrow>
          (case ddgResult of
             Some r \<Rightarrow>
               if r_type r = ''instant_answer'' \<or> r_type r = ''abstract''
               then (Fulfilled (found_answer (Source r) False), st')
               else step2 src t0 t1 query st'
           | None \<Rightarrow> step2 src t0 t1 query st'))"

section \<open>services/mathService.js: evaluateMathExpression\<close>

text \<open>
  What the engine makes of the sanitized text (\<open>Function(...)()\<close>) is not part
  of the program: it is the parameter \<open>run\<close>, which either throws or returns a value, a
  number or something else (a regular expression object, for one). The same holds for
  the two number formatters.
\<close>

datatype js_value = Number js_number | NotANumber

datatype 'a completion = Returns 'a | Throws

record engine =
  run :: "string \<Rightarrow> js_value completion"
  number_toString :: "rat \<Rightarrow> string"
  number_toFixed6 :: "rat \<Rightarrow> string"

record math_result =
  m_expression :: string
  m_result :: js_number
  m_formatted :: string
  m_source :: string

fun isFinite :: "js_number \<Rightarrow> bool" where
  "isFinite (Finite x) = True"
| "isFinite _ = False"

text \<open>\<open>expression.replace(/[^0-9+\-*/().%\s^]/g, '').replace(/\^/g, '**')\<close>\<close>

definition sanitize_class :: atom where
  "sanitize_class =
     ACls True [Digit, C CHR ''+'', C CHR ''-'', C CHR ''*'', C CHR ''/'', C CHR ''('', C CHR '')'',
                C CHR ''.'', C CHR ''%'', Space, C CHR ''^'']"

definition sanitize :: "string \<Rightarrow> string" where
  "sanitize expression =
     js_replace_all False (Atom (AChr CHR ''^'')) ''**''
       (js_replace_all False (Atom sanitize_class) [] expression)"

text \<open>
  \<open>Number.isInteger(result) ? result.toString() : result.toFixed(6).replace(/\.?0+$/, '')\<close>
\<close>

definition trailing_zeros_re :: re where
  "trailing_zeros_re = seqs [Opt (Atom (AChr CHR ''.'')), Plus (AChr CHR ''0''), Eol]"

definition format_number :: "engine \<Rightarrow> rat \<Rightarrow> string" where
  "format_number e x =
     (if of_int \<lfloor>x\<rfloor> = x then number_toString e x
      else js_replace False trailing_zeros_re [] (number_toFixed6 e x))"

text \<open>
  The whole body is inside \<open>try\<close>; the handler returns \<open>null\<close> (\<open>None\<close>).
\<close>

definition evaluateMathExpression :: "engine \<Rightarrow> string \<Rightarrow> math_result option" where
  "evaluateMathExpression e expression =
     (case run e ([dquote] @ ''use strict'' @ [dquote] @ ''; return ('' @ sanitize expression @ '')'') of
        Throws \<Rightarrow> None
      | Returns NotANumber \<Rightarrow> None
      | Returns (Number r) \<Rightarrow>
          (case r of
             Finite x \<Rightarrow>
               Some \<lparr>m_expression = expression, m_result = r,
                     m_formatted = format_number e x, m_source = ''Calculator''\<rparr>
           | _ \<Rightarrow> None))"

section \<open>server.js: gatherKnowledge\<close>

subsection \<open>The fetchers\<close>

text \<open>
  The keys of the \<open>results\<close> object and the calls \<open>gatherKnowledge\<close> makes to the service
  functions.
\<close>

datatype category =
    TimeK | DateK | WeatherK | CurrencyK | CryptoK | NewsK | CountryK | DictionaryK
  | MathK | QuoteK | JokeK | TriviaK | WikipediaK | WebSearchK

datatype fetcher_call =
    GetWorldTime string
  | GetWeather string
  | ConvertCurrency js_number string string
  | GetExchangeRates string
  | GetTopCryptos nat
  | GetCryptoPrice string
  | GetNews string
  | GetCountryInfo string
  | LookupDictionary string
  | GetQuote
  | GetJoke
  | GetTriviaQuestion
  | LookupWikipedia string

text \<open>
  What is thrown, or carried by a rejected promise: an object (an \<open>Error\<close>, whose
  \<open>message\<close> can be read) or \<open>null\<close>/\<open>undefined\<close> (reading \<open>message\<close> from it throws a
  \<open>TypeError\<close>). The body of a service function, with the provider behind it, either
  gives its value (\<open>None\<close> is \<open>null\<close>) or throws.
\<close>

datatype thrown = ErrorObject | Nullish

datatype 'd attempt = Gives "'d option" | Raises thrown

datatype 'a promise = Resolves 'a | Rejects thrown

text \<open>
  A \<open>catch\<close> handler either does nothing with the error or logs \<open>error.message\<close>.
\<close>

datatype handler = Silent | LogsMessage

fun handle :: "handler \<Rightarrow> thrown \<Rightarrow> thrown option" where
  "handle Silent e = None"
| "handle LogsMessage ErrorObject = None"
| "handle LogsMessage Nullish = Some ErrorObject"

text \<open>
  Every service function called here is an \<open>async\<close> function whose whole body is in
  \<open>try\<close>, with a handler that returns \<open>null\<close>; \<open>convertCurrency\<close> and \<open>searchDictionary\<close>
  have a silent handler, the others log \<open>error.message\<close> first.
\<close>

fun fetcher_handler :: "fetcher_call \<Rightarrow> handler" where
  "fetcher_handler (ConvertCurrency amount from to) = Silent"
| "fetcher_handler (LookupDictionary w) = Silent"
| "fetcher_handler _ = LogsMessage"

definition async_fetcher :: "handler \<Rightarrow> 'd attempt \<Rightarrow> 'd option promise" where
  "async_fetcher h body =
     (case body of
        Gives v \<Rightarrow> Resolves v
      | Raises e \<Rightarrow> (case handle h e of None \<Rightarrow> Resolves None | Some e' \<Rightarrow> Rejects e'))"

subsection \<open>The results object and the promises\<close>

datatype 'd knowledge = Fetched 'd | MathV math_result | SearchV smart_answer

type_synonym 'd results = "category \<rightharpoonup> 'd knowledge"

text \<open>
  The world outside the program: what each service call does, the value of
  \<open>getDateInfo()\<close>, the engine with its \<open>parseFloat\<close>, and how the promise of \<open>smartSearch\<close> settles (a rejection
  of \<open>smartSearch\<close> carries what a source function's handler threw, an object).
\<close>

record 'd world =
  fetch :: "fetcher_call \<Rightarrow> 'd attempt"
  dateInfo :: 'd
  js_engine :: engine
  parse_float :: "string \<Rightarrow> js_number"
  search :: "string \<Rightarrow> smart_answer settled"

text \<open>
  One element of \<open>promises\<close>:
  \<open>call.then(data => { if (data) results.key = data; }).catch(handler)\<close>
\<close>

record 'd pending =
  p_key :: category
  p_handler :: handler
  p_promise :: "'d option promise"

definition issue :: "'d world \<Rightarrow> category \<Rightarrow> handler \<Rightarrow> fetcher_call \<Rightarrow> 'd pending" where
  "issue w k h c =
     \<lparr>p_key = k, p_handler = h, p_promise = async_fetcher (fetcher_handler c) (fetch w c)\<rparr>"

text \<open>
  The callbacks of one element run when its call settles: the entry is written for a
  value that is not \<open>null\<close>; a rejection goes to the handler. \<open>Inl\<close> means that the
  element itself is rejected (its handler threw).
\<close>

definition deliver :: "'d pending \<Rightarrow> 'd results \<Rightarrow> thrown + 'd results" where
  "deliver p res =
     (case p_promise p of
        Resolves (Some d) \<Rightarrow> Inr (res(p_key p \<mapsto> Fetched d))
      | Resolves None \<Rightarrow> Inr res
      | Rejects e \<Rightarrow> (case handle (p_handler p) e of None \<Rightarrow> Inr res | Some e' \<Rightarrow> Inl e'))"

text \<open>\<open>a || b\<close> on texts, \<open>null\<close> being \<open>None\<close>\<close>

definition text_or :: "string option \<Rightarrow> string \<Rightarrow> string" where
  "text_or a b = (case a of Some t \<Rightarrow> if t \<noteq> [] then t else b | None \<Rightarrow> b)"

definition issue_time :: "'d world \<Rightarrow> analysis \<Rightarrow> 'd pending list" where
  "issue_time w a =
     (case timeLocation a of
        Some l \<Rightarrow> if needsTime a \<and> l \<noteq> [] then [issue w TimeK LogsMessage (GetWorldTime l)] else []
      | None \<Rightarrow> [])"

definition issue_weather :: "'d world \<Rightarrow> analysis \<Rightarrow> 'd pending list" where
  "issue_weather w a =
     (case weatherLocation a of
        Some l \<Rightarrow> if needsWeather a \<and> l \<noteq> [] then [issue w WeatherK LogsMessage (GetWeather l)] else []
      | None \<Rightarrow> [])"

definition issue_currency :: "'d world \<Rightarrow> analysis \<Rightarrow> 'd pending list" where
  "issue_currency w a =
     (if needsCurrency a
      then (case (currencyAmount a, currencyFrom a, currencyTo a) of
              (Some amount, Some from, Some to) \<Rightarrow>
                if number_truthy amount \<and> from \<noteq> [] \<and> to \<noteq> []
                then [issue w CurrencyK Silent (ConvertCurrency amount from to)]
                else [issue w CurrencyK Silent (GetExchangeRates (text_or (currencyFrom a) ''USD''))]
            | _ \<Rightarrow> [issue w CurrencyK Silent (GetExchangeRates (text_or (currencyFrom a) ''USD''))])
      else [])"

definition issue_crypto :: "'d world \<Rightarrow> analysis \<Rightarrow> 'd pending list" where
  "issue_crypto w a =
     (if needsCrypto a
      then (if cryptoName a = Some ''top''
            then [issue w CryptoK Silent (GetTopCryptos 10)]
            else [issue w CryptoK Silent (GetCryptoPrice (text_or (cryptoName a) ''bitcoin''))])
      else [])"

text \<open>The analysis object has no \<open>newsCategory\<close>, so the topic is \<open>'technology'\<close>.\<close>

definition issue_news :: "'d world \<Rightarrow> analysis \<Rightarrow> 'd pending list" where
  "issue_news w a = (if needsNews a then [issue w NewsK Silent (GetNews ''technology'')] else [])"

definition issue_country :: "'d world \<Rightarrow> analysis \<Rightarrow> 'd pending list" where
  "issue_country w a =
     (case searchTerms a of
        t # _ \<Rightarrow> if needsCountry a then [issue w CountryK Silent (GetCountryInfo t)] else []
      | [] \<Rightarrow> [])"

definition issue_dictionary :: "'d world \<Rightarrow> analysis \<Rightarrow> 'd pending list" where
  "issue_dictionary w a =
     (case searchTerms a of
        t # _ \<Rightarrow> if needsDictionary a then [issue w DictionaryK Silent (LookupDictionary t)] else []
      | [] \<Rightarrow> [])"

definition issue_quote :: "'d world \<Rightarrow> analysis \<Rightarrow> 'd pending list" where
  "issue_quote w a = (if needsQuote a then [issue w QuoteK Silent GetQuote] else [])"

definition issue_joke :: "'d world \<Rightarrow> analysis \<Rightarrow> 'd pending list" where
  "issue_joke w a = (if needsJoke a then [issue w JokeK Silent GetJoke] else [])"

definition issue_trivia :: "'d world \<Rightarrow> analysis \<Rightarrow> 'd pending list" where
  "issue_trivia w a = (if needsTrivia a then [issue w TriviaK Silent GetTriviaQuestion] else [])"

definition issue_wikipedia :: "'d world \<Rightarrow> analysis \<Rightarrow> 'd pending list" where
  "issue_wikipedia w a =
     (case searchTerms a of
        t # _ \<Rightarrow> if needsWikipedia a then [issue w WikipediaK Silent (LookupWikipedia t)] else []
      | [] \<Rightarrow> [])"

text \<open>The array \<open>promises\<close>, in the order of the pushes.\<close>

definition issue_calls :: "'d world \<Rightarrow> analysis \<Rightarrow> 'd pending list" where
  "issue_calls w a =
     issue_time w a @ issue_weather w a @ issue_currency w a @ issue_crypto w a
     @ issue_news w a @ issue_country w a @ issue_dictionary w a @ issue_quote w a
     @ issue_joke w a @ issue_trivia w a @ issue_wikipedia w a"

text \<open>The entries written before the wait: \<open>date\<close> and \<open>math\<close>.\<close>

definition sync_results :: "'d world \<Rightarrow> analysis \<Rightarrow> 'd results" where
  "sync_results w a =
     (let res = (if needsDate a then [DateK \<mapsto> Fetched (dateInfo w)] else Map.empty)
      in case mathExpression a of
           Some e \<Rightarrow>
             if needsMath a \<and> e \<noteq> []
             then (case evaluateMathExpression (js_engine w) e of
                     Some mathResult \<Rightarrow> res(MathK \<mapsto> MathV mathResult)
                   | None \<Rightarrow> res)
             else res
         | None \<Rightarrow> res)"

subsection \<open>The wait\<close>

text \<open>
  What happens while the function is suspended is a sequence of events, in the order in
  which the event loop runs them: the call behind element \<open>j\<close> of \<open>promises\<close> settles and
  the callbacks of the element run; the timer of 6000 ms fires; the promise of
  \<open>smartSearch\<close> settles. A call that hangs has no event.
\<close>

datatype event = Settles nat | TimerFires | SearchReturns

text \<open>
  \<open>await Promise.race([Promise.all(promises), timer])\<close>, with the indices of the elements
  that have not settled. \<open>Promise.all\<close> is fulfilled when no element is left and rejected
  as soon as one element is rejected; the \<open>await\<close> then throws.
\<close>

datatype 'd wait = Resumed "'d results" "nat list" "event list" | Threw | Stalled

fun await_race :: "'d pending list \<Rightarrow> nat list \<Rightarrow> 'd results \<Rightarrow> event list \<Rightarrow> 'd wait" where
  "await_race ps [] res evs = Resumed res [] evs"
| "await_race ps (i # is) res [] = Stalled"
| "await_race ps (i # is) res (TimerFires # evs) = Resumed res (i # is) evs"
| "await_race ps (i # is) res (SearchReturns # evs) = await_race ps (i # is) res evs"
| "await_race ps (i # is) res (Settles j # evs) =
     (if j \<in> set (i # is) \<and> j < length ps
      then (case deliver (ps ! j) res of
              Inl e \<Rightarrow> Threw
            | Inr res' \<Rightarrow> await_race ps (removeAll j (i # is)) res' evs)
      else await_race ps (i # is) res evs)"

text \<open>
  The events that run while \<open>await smartSearch(...)\<close> is suspended, up to the one that
  settles it. Nothing cancels the calls that were still open when the wait ended: when
  one settles now, its callbacks run as before, on the same \<open>results\<close> object.
\<close>

fun during_search :: "'d pending list \<Rightarrow> nat list \<Rightarrow> 'd results \<Rightarrow> event list \<Rightarrow>
    ('d results \<times> nat list \<times> event list) option" where
  "during_search ps is res [] = None"
| "during_search ps is res (SearchReturns # evs) = Some (res, is, evs)"
| "during_search ps is res (TimerFires # evs) = during_search ps is res evs"
| "during_search ps is res (Settles j # evs) =
     (if j \<in> set is \<and> j < length ps
      then during_search ps (removeAll j is)
             (case deliver (ps ! j) res of Inl e \<Rightarrow> res | Inr res' \<Rightarrow> res') evs
      else during_search ps is res evs)"

subsection \<open>gatherKnowledge\<close>

definition all_categories :: "category list" where
  "all_categories = [TimeK, DateK, WeatherK, CurrencyK, CryptoK, NewsK, CountryK, DictionaryK,
                     MathK, QuoteK, JokeK, TriviaK, WikipediaK, WebSearchK]"

text \<open>\<open>Object.values(results)\<close>\<close>

definition object_values :: "'d results \<Rightarrow> 'd knowledge option list" where
  "object_values res = map Some (List.map_filter res all_categories)"

definition fallback_wanted :: "analysis \<Rightarrow> 'd results \<Rightarrow> bool" where
  "fallback_wanted a res =
     (needsWebSearchFallback (object_values res) \<and> (needsWebSearch a \<or> searchTerms a \<noteq> []))"

text \<open>\<open>analysis.searchTerms[0] || message.replace(/\?/g, '').trim()\<close>\<close>

definition searchQuery :: "analysis \<Rightarrow> string \<Rightarrow> string" where
  "searchQuery a msg =
     (case searchTerms a of
        t # _ \<Rightarrow> if t \<noteq> [] then t else trim (strip_qmarks msg)
      | [] \<Rightarrow> trim (strip_qmarks msg))"

datatype 'd gathered = Returned "'d results" | Thrown | NotFinished

definition gather :: "'d world \<Rightarrow> analysis \<Rightarrow> string \<Rightarrow> event list \<Rightarrow> 'd gathered" where
  "gather w a msg schedule =
     (let promises = issue_calls w a in
      case await_race promises [0..<length promises] (sync_results w a) schedule of
        Stalled \<Rightarrow> NotFinished
      | Threw \<Rightarrow> Thrown
      | Resumed results pend evs \<Rightarrow>
          if fallback_wanted a results
          then (case during_search promises pend results evs of
                  None \<Rightarrow> NotFinished
                | Some (results', pend', evs') \<Rightarrow>
                    (case search w (searchQuery a msg) of
                       Fulfilled webSearchResult \<Rightarrow>
                         if found webSearchResult
                         then Returned (results'(WebSearchK \<mapsto> SearchV webSearchResult))
                         else Returned results'
                     | Rejected \<Rightarrow> Returned results'))
          else Returned results)"

definition gatherKnowledge :: "'d world \<Rightarrow> string \<Rightarrow> event list \<Rightarrow> 'd gathered" where
  "gatherKnowledge w msg schedule = gather w (analyzeQuery (parse_float w) msg) msg schedule"

section \<open>Sample inputs\<close>

text \<open>An engine that knows three programs, and four source results.\<close>

definition sample_engine :: engine where
  "sample_engine =
     \<lparr>run = (\<lambda>code. if code = [dquote] @ ''use strict'' @ [dquote] @ ''; return (2**3)''
                     then Returns (Number (Finite 8))
                     else if code = [dquote] @ ''use strict'' @ [dquote] @ ''; return (1/0 )''
                     then Returns (Number PosInfinity)
                     else Throws),
      number_toString = (\<lambda>x. ''8''),
      number_toFixed6 = (\<lambda>x. ''8.000000'')\<rparr>"

definition related_topics :: result where
  "related_topics =
     \<lparr>r_type = ''related'', r_source = Str ''DuckDuckGo Related'', r_confidence = 6 / 10,
      r_answer = Undefined, r_title = Undefined, r_url = Undefined, r_image = Undefined,
      r_meanings = Undefined, r_word = Undefined, r_phonetic = Undefined,
      r_results = Undefined, r_topics = Arr [''rain (album)'']\<rparr>"

definition dictionary_entry :: result where
  "dictionary_entry =
     \<lparr>r_type = ''dictionary'', r_source = Str ''Free Dictionary'', r_confidence = 9 / 10,
      r_answer = Undefined, r_title = Undefined, r_url = Undefined, r_image = Undefined,
      r_meanings = Arr [''water falling in drops''], r_word = Str ''rain'',
      r_phonetic = Undefined, r_results = Undefined, r_topics = Undefined\<rparr>"

definition wikipedia_search :: result where
  "wikipedia_search =
     \<lparr>r_type = ''search_results'', r_source = Str ''Wikipedia Search'', r_confidence = 7 / 10,
      r_answer = Undefined, r_title = Undefined, r_url = Undefined, r_image = Undefined,
      r_meanings = Undefined, r_word = Undefined, r_phonetic = Undefined,
      r_results = Arr [''Sorting algorithm''], r_topics = Undefined\<rparr>"

definition stackoverflow_question :: result where
  "stackoverflow_question =
     \<lparr>r_type = ''stackoverflow_question'', r_source = Str ''Stack Overflow'',
      r_confidence = 7 / 10,
      r_answer = Undefined, r_title = Str ''How to sort a list'', r_url = Undefined,
      r_image = Undefined, r_meanings = Undefined, r_word = Undefined,
      r_phonetic = Undefined, r_results = Undefined, r_topics = Undefined\<rparr>"

section \<open>Properties of the cache\<close>

lemma get_after_set:
  "now' - now < t \<Longrightarrow>
   fst (SmartCache_get now' k t (snd (SmartCache_set now k v t s))) = Some v"
  by (simp add: SmartCache_get_def SmartCache_set_def)

lemma get_stale:
  "cache s k = Some e \<Longrightarrow> maxAge \<le> now - timestamp e \<Longrightarrow>
   fst (SmartCache_get now k maxAge s) = None \<and>
   cache (snd (SmartCache_get now k maxAge s)) k = None"
  by (simp add: SmartCache_get_def)

lemma get_returns_fresh:
  "fst (SmartCache_get now k maxAge s) = Some v \<Longrightarrow>
   \<exists>e. cache s k = Some e \<and> data e = v \<and> now - timestamp e < maxAge"
  by (auto simp: SmartCache_get_def split: option.splits if_splits)

lemma cleanup_timers [simp]: "timers (cleanup f k t s) = timers s"
  by (simp add: cleanup_def split: option.splits)

lemma fold_cleanup_timers:
  "timers (fold (\<lambda>tm. cleanup f (timer_key tm) (timer_ttl tm)) tms s) = timers s"
  by (induction tms arbitrary: s) simp_all

lemma run_timers_timers: "set (timers (run_timers f s)) \<subseteq> set (timers s)"
  by (auto simp: run_timers_def fold_cleanup_timers)

lemma fold_run_timers_timers: "set (timers (fold run_timers fs s)) \<subseteq> set (timers s)"
proof (induction fs arbitrary: s)
  case Nil
  show ?case by simp
next
  case (Cons f fs)
  have "set (timers (fold run_timers fs (run_timers f s))) \<subseteq> set (timers (run_timers f s))"
    by (rule Cons.IH)
  also have "\<dots> \<subseteq> set (timers s)" by (rule run_timers_timers)
  finally show ?case by simp
qed

lemma cleanup_other_key: "k' \<noteq> k \<Longrightarrow> cache (cleanup f k' t s) k = cache s k"
  by (simp add: cleanup_def split: option.splits)

lemma cleanup_fresh:
  "cache s k = Some e \<Longrightarrow> f - timestamp e < t \<Longrightarrow> cache (cleanup f k t s) k = Some e"
  by (simp add: cleanup_def)

lemma fold_cleanup_fresh:
  "cache s k = Some e \<Longrightarrow>
   \<forall>tm\<in>set tms. timer_key tm = k \<longrightarrow> f - timestamp e < timer_ttl tm \<Longrightarrow>
   cache (fold (\<lambda>tm. cleanup f (timer_key tm) (timer_ttl tm)) tms s) k = Some e"
proof (induction tms arbitrary: s)
  case Nil
  then show ?case by simp
next
  case (Cons tm tms)
  have "cache (cleanup f (timer_key tm) (timer_ttl tm) s) k = Some e"
  proof (cases "timer_key tm = k")
    case True
    with Cons.prems show ?thesis by (simp add: cleanup_fresh)
  next
    case False
    with Cons.prems show ?thesis by (simp add: cleanup_other_key)
  qed
  with Cons show ?case by simp
qed

lemma run_timers_fresh:
  assumes "cache s k = Some e"
    and "\<forall>tm\<in>set (timers s). timer_key tm = k \<longrightarrow> f - timestamp e < timer_ttl tm"
  shows "cache (run_timers f s) k = Some e"
  unfolding run_timers_def using assms by (intro fold_cleanup_fresh) auto

lemma fold_run_timers_fresh:
  "cache s k = Some e \<Longrightarrow>
   \<forall>tm\<in>set (timers s). timer_key tm = k \<longrightarrow> g - timestamp e < timer_ttl tm \<Longrightarrow>
   \<forall>f\<in>set fs. f \<le> g \<Longrightarrow>
   cache (fold run_timers fs s) k = Some e"
proof (induction fs arbitrary: s)
  case Nil
  then show ?case by simp
next
  case (Cons f fs)
  have fg: "f \<le> g" using Cons.prems(3) by simp
  have 1: "cache (run_timers f s) k = Some e"
    using Cons.prems(1,2) fg by (intro run_timers_fresh) fastforce+
  have 2: "\<forall>tm\<in>set (timers (run_timers f s)). timer_key tm = k \<longrightarrow> g - timestamp e < timer_ttl tm"
    using Cons.prems(2) run_timers_timers[of f s] by blast
  show ?case using Cons.IH[OF 1 2] Cons.prems(3) by simp
qed


text \<open>
  Claim C6, as the code has it. For a positive \<open>ttl\<close>, \<open>set(k, v, ttl)\<close> immediately
  followed by \<open>get(k, ttl)\<close> (the same clock reading) returns \<open>v\<close>. A \<open>get(k, maxAge)\<close>
  called once \<open>maxAge\<close> has elapsed since the entry was stored returns \<open>null\<close> and evicts
  the entry, whatever the entry's own \<open>ttl\<close>. Whenever \<open>get\<close> returns data, the entry
  it came from is younger than \<open>maxAge\<close> at the time of the call.
\<close>

theorem get_respects_maxAge:
  "(0 < t \<longrightarrow> fst (SmartCache_get now k t (snd (SmartCache_set now k v t s))) = Some v)
   \<and> (maxAge \<le> now' - now \<longrightarrow>
        fst (SmartCache_get now' k maxAge (snd (SmartCache_set now k v t s))) = None
        \<and> cache (snd (SmartCache_get now' k maxAge (snd (SmartCache_set now k v t s)))) k = None)
   \<and> (fst (SmartCache_get now' k maxAge s) = Some w \<longrightarrow>
        (\<exists>e. cache s k = Some e \<and> data e = w \<and> now' - timestamp e < maxAge))"
proof (intro conjI impI)
  assume "0 < t"
  then show "fst (SmartCache_get now k t (snd (SmartCache_set now k v t s))) = Some v"
    by (simp add: get_after_set)
next
  let ?s = "snd (SmartCache_set now k v t s)"
  assume old: "maxAge \<le> now' - now"
  have e: "cache ?s k = Some \<lparr>data = v, timestamp = now, ttl = t\<rparr>"
    by (simp add: SmartCache_set_def)
  from get_stale [OF e] old
  show "fst (SmartCache_get now' k maxAge ?s) = None" by simp
  from get_stale [OF e] old
  show "cache (snd (SmartCache_get now' k maxAge ?s)) k = None" by simp
next
  assume "fst (SmartCache_get now' k maxAge s) = Some w"
  then show "\<exists>e. cache s k = Some e \<and> data e = w \<and> now' - timestamp e < maxAge"
    by (rule get_returns_fresh)
qed

theorem get_respects_maxAge_witness:
  "fst (SmartCache_get 1000 ''time_paris'' 30000
          (snd (SmartCache_set 1000 ''time_paris'' ''noon'' 30000 new_SmartCache))) = Some ''noon''
   \<and> fst (SmartCache_get 2000 ''time_paris'' 500
          (snd (SmartCache_set 1000 ''time_paris'' ''noon'' 30000 new_SmartCache))) = None
   \<and> (\<exists>e. cache (snd (SmartCache_set 1000 ''time_paris'' ''noon'' 30000 new_SmartCache))
              ''time_paris'' = Some e
          \<and> data e = ''noon'' \<and> 1200 - timestamp e < 30000)"
proof -
  let ?s = "snd (SmartCache_set 1000 ''time_paris'' ''noon'' 30000
                   (new_SmartCache :: string SmartCache))"
  have pos: "(0::int) < 30000" by simp
  have old: "(500::int) \<le> 2000 - 1000" by simp
  have hit: "fst (SmartCache_get 1200 ''time_paris'' 30000 ?s) = Some ''noon''"
    by (simp add: SmartCache_get_def SmartCache_set_def)
  note a = get_respects_maxAge [of 30000 1000 "''time_paris''" "''noon''" new_SmartCache
      500 2000 "''x''", THEN conjunct1, rule_format, OF pos]
  note b = get_respects_maxAge [of 30000 1000 "''time_paris''" "''noon''" new_SmartCache
      500 2000 "''x''", THEN conjunct2, THEN conjunct1, rule_format, OF old,
      THEN conjunct1]
  note c = get_respects_maxAge [of 1 0 "''time_paris''" "''noon''" ?s
      30000 1200 "''noon''", THEN conjunct2, THEN conjunct2, rule_format, OF hit]
  from a b c show ?thesis by blast
qed

text \<open>
  With \<open>ttl = 0\<close> the entry written by \<open>set\<close> is already stale for a \<open>get\<close> with the
  same window: \<open>0 < 0\<close> fails, the entry is evicted and \<open>get\<close> returns \<open>null\<close>.
\<close>

theorem get_after_set_zero_ttl:
  "fst (SmartCache_get 1000 ''time_paris'' 0
          (snd (SmartCache_set 1000 ''time_paris'' ''noon'' 0 new_SmartCache))) \<noteq> Some ''noon''"
  by (simp add: SmartCache_get_def SmartCache_set_def)

text \<open>
  Last writer wins under a proviso. After \<open>set(k, v1, ttl)\<close> and then \<open>set(k, v2, ttl)\<close>,
  with any cleanup callbacks firing in between and afterwards, a \<open>get(k, ttl)\<close> made
  within \<open>ttl\<close> of the second \<open>set\<close> returns \<open>v2\<close>, provided that no callback of an
  older \<open>set\<close> of the same key with a smaller ttl is pending at the start. A cleanup
  callback removes an entry only when that entry is at least as old as the callback's own
  \<open>ttl\<close> at the time the callback runs.
\<close>

lemma refreshed_entry_survives:
  assumes old: "\<forall>tm\<in>set (timers s0). timer_key tm = k \<longrightarrow> t \<le> timer_ttl tm"
    and fires: "\<forall>f\<in>set fires2. f \<le> g"
    and within: "g - t2 < t"
  shows "fst (SmartCache_get g k t
            (fold run_timers fires2
               (snd (SmartCache_set t2 k v2 t
                  (fold run_timers fires1
                     (snd (SmartCache_set t1 k v1 t s0))))))) = Some v2
         \<and> (\<forall>f s e. cache s k = Some e \<and> cache (cleanup f k t s) k = None
                \<longrightarrow> t \<le> f - timestamp e)"
proof
  let ?s1 = "snd (SmartCache_set t1 k v1 t s0)"
  let ?s1' = "fold run_timers fires1 ?s1"
  let ?s2 = "snd (SmartCache_set t2 k v2 t ?s1')"
  let ?e = "\<lparr>data = v2, timestamp = t2, ttl = t\<rparr>"
  have t1: "\<forall>tm\<in>set (timers ?s1). timer_key tm = k \<longrightarrow> t \<le> timer_ttl tm"
    using old by (auto simp: SmartCache_set_def)
  have t1': "\<forall>tm\<in>set (timers ?s1'). timer_key tm = k \<longrightarrow> t \<le> timer_ttl tm"
    using t1 fold_run_timers_timers[of fires1 ?s1] by blast
  have t2: "\<forall>tm\<in>set (timers ?s2). timer_key tm = k \<longrightarrow> g - timestamp ?e < timer_ttl tm"
    using t1' within by (auto simp: SmartCache_set_def)
  have c2: "cache ?s2 k = Some ?e"
    by (simp add: SmartCache_set_def)
  have "cache (fold run_timers fires2 ?s2) k = Some ?e"
    using c2 t2 fires by (rule fold_run_timers_fresh)
  then show "fst (SmartCache_get g k t (fold run_timers fires2 ?s2)) = Some v2"
    using within by (simp add: SmartCache_get_def)
next
  show "\<forall>f s e. cache s k = Some e \<and> cache (cleanup f k t s) k = None \<longrightarrow> t \<le> f - timestamp e"
    by (auto simp: cleanup_def split: if_splits)
qed

text \<open>
  Claim C7 does not hold on the code. The callback that \<open>set\<close> hands to \<open>setTimeout\<close>
  compares the age of whatever entry is in the cache when it runs with the \<open>ttl\<close> of its
  own call; the \<open>ttl\<close> stored in the entry is never read. A callback left by an earlier
  \<open>set\<close> of the key with a smaller ttl therefore removes an entry that later calls have
  refreshed. Here \<open>set(k, v0, 10)\<close>, \<open>set(k, v1, 100)\<close> and \<open>set(k, v2, 100)\<close> all run at
  time 0; the first callback fires at time 10, finds the entry 10 ms old and deletes it;
  \<open>get(k, 100)\<close> at time 50, well within 100 ms of the last \<open>set\<close>, returns \<open>null\<close> and not
  \<open>v2\<close>.
\<close>

theorem stale_cleanup_deletes_refreshed_entry:
  "cache (run_timers 10
            (snd (SmartCache_set 0 ''news_sport'' ''v2'' 100
               (snd (SmartCache_set 0 ''news_sport'' ''v1'' 100
                  (snd (SmartCache_set 0 ''news_sport'' ''v0'' 10 new_SmartCache))))))) ''news_sport''
     = None
   \<and> fst (SmartCache_get 50 ''news_sport'' 100
          (run_timers 10
             (snd (SmartCache_set 0 ''news_sport'' ''v2'' 100
                (snd (SmartCache_set 0 ''news_sport'' ''v1'' 100
                   (snd (SmartCache_set 0 ''news_sport'' ''v0'' 10 new_SmartCache)))))))) = None"
  by (simp add: SmartCache_get_def SmartCache_set_def run_timers_def cleanup_def
      new_SmartCache_def timeout_delay_def)

section \<open>Properties of evaluateMathExpression\<close>

lemma sample_power: "evaluateMathExpression sample_engine ''2^3'' =
    Some \<lparr>m_expression = ''2^3'', m_result = Finite 8, m_formatted = ''8'', m_source = ''Calculator''\<rparr>"
  by code_simp

lemma sample_div: "evaluateMathExpression sample_engine ''1/0 apples'' = None"
  by code_simp

lemma sample_throw: "evaluateMathExpression sample_engine ''2 +'' = None"
  by code_simp

text \<open>
  Claim C10. For every engine and every input text, \<open>evaluateMathExpression\<close> returns
  \<open>null\<close> or a record whose \<open>result\<close> is a finite number; whenever the evaluation of the
  sanitized text throws, or gives something that is not a number, or a number that is
  not finite, the outcome is \<open>null\<close>.
\<close>

theorem evaluateMathExpression_null_or_finite:
  "(evaluateMathExpression e expression = None
      \<or> (\<exists>r x. evaluateMathExpression e expression = Some r \<and> m_result r = Finite x))
   \<and> ((\<forall>x. run e ([dquote] @ ''use strict'' @ [dquote] @ ''; return ('' @ sanitize expression @ '')'')
             \<noteq> Returns (Number (Finite x)))
        \<longrightarrow> evaluateMathExpression e expression = None)"
  by (auto simp: evaluateMathExpression_def split: completion.splits js_value.splits js_number.splits)

theorem evaluateMathExpression_null_or_finite_witness:
  "(\<exists>r x. evaluateMathExpression sample_engine ''2^3'' = Some r \<and> m_result r = Finite x)
   \<and> evaluateMathExpression sample_engine ''1/0 apples'' = None"
proof -
  have a: "evaluateMathExpression sample_engine ''2^3'' \<noteq> None"
    by (simp add: sample_power)
  have "run sample_engine ([dquote] @ ''use strict'' @ [dquote] @ ''; return (''
               @ sanitize ''1/0 apples'' @ '')'') = Returns (Number PosInfinity)"
    by code_simp
  then have b: "\<forall>x. run sample_engine ([dquote] @ ''use strict'' @ [dquote] @ ''; return (''
               @ sanitize ''1/0 apples'' @ '')'') \<noteq> Returns (Number (Finite x))"
    by simp
  from evaluateMathExpression_null_or_finite [of sample_engine "''2^3''"] a
  have "\<exists>r x. evaluateMathExpression sample_engine ''2^3'' = Some r \<and> m_result r = Finite x"
    by blast
  moreover from evaluateMathExpression_null_or_finite [of sample_engine "''1/0 apples''"] b
  have "evaluateMathExpression sample_engine ''1/0 apples'' = None"
    by blast
  ultimately show ?thesis by blast
qed

section \<open>Properties of determineBestAnswer\<close>

lemma insert_sorted_hd:
  "hd (insert_sorted by_confidence x ys) =
     (if ys = [] \<or> r_confidence (hd ys) \<le> r_confidence x then x else hd ys)"
  by (cases ys) (auto simp: by_confidence_def)

lemma js_sort_Cons: "js_sort cmp (x # xs) = insert_sorted cmp x (js_sort cmp xs)"
  by (simp add: js_sort_def)

lemma insert_sorted_not_Nil: "insert_sorted cmp x ys \<noteq> []"
  by (cases ys) auto

lemma js_sort_Nil_iff: "js_sort cmp xs = [] \<longleftrightarrow> xs = []"
  by (cases xs) (auto simp: js_sort_Cons insert_sorted_not_Nil js_sort_def)

lemma first_best_Cons_keep:
  assumes "first_best xs b" "r_confidence b \<le> r_confidence x"
  shows "first_best (x # xs) x"
proof -
  from assms(1) obtain pre post where s: "xs = pre @ b # post"
    and p: "\<forall>r\<in>set pre. r_confidence r < r_confidence b"
    and q: "\<forall>r\<in>set post. r_confidence r \<le> r_confidence b"
    unfolding first_best_def by blast
  have "\<forall>r\<in>set xs. r_confidence r \<le> r_confidence x"
    using s p q assms(2) by fastforce
  then have "x # xs = [] @ x # xs \<and> (\<forall>r\<in>set []. r_confidence r < r_confidence x)
     \<and> (\<forall>r\<in>set xs. r_confidence r \<le> r_confidence x)" by simp
  then show ?thesis unfolding first_best_def by blast
qed

lemma first_best_Cons_skip:
  assumes "first_best xs b" "r_confidence x < r_confidence b"
  shows "first_best (x # xs) b"
proof -
  from assms(1) obtain pre post where s: "xs = pre @ b # post"
    and p: "\<forall>r\<in>set pre. r_confidence r < r_confidence b"
    and q: "\<forall>r\<in>set post. r_confidence r \<le> r_confidence b"
    unfolding first_best_def by blast
  have "x # xs = (x # pre) @ b # post \<and> (\<forall>r\<in>set (x # pre). r_confidence r < r_confidence b)
     \<and> (\<forall>r\<in>set post. r_confidence r \<le> r_confidence b)"
    using s p q assms(2) by simp
  then show ?thesis unfolding first_best_def by blast
qed

lemma hd_js_sort_first_best:
  "xs \<noteq> [] \<Longrightarrow> first_best xs (hd (js_sort by_confidence xs))"
proof (induction xs)
  case Nil
  then show ?case by simp
next
  case (Cons x xs)
  show ?case
  proof (cases "xs = []")
    case True
    have "[x] = [] @ x # []" by simp
    then have "first_best [x] x" unfolding first_best_def by fastforce
    with True show ?thesis by (simp add: js_sort_def)
  next
    case False
    then have ih: "first_best xs (hd (js_sort by_confidence xs))" by (rule Cons.IH)
    have ne: "js_sort by_confidence xs \<noteq> []" using False by (simp add: js_sort_Nil_iff)
    show ?thesis
    proof (cases "r_confidence (hd (js_sort by_confidence xs)) \<le> r_confidence x")
      case True
      then show ?thesis
        using ih by (simp add: js_sort_Cons insert_sorted_hd first_best_Cons_keep)
    next
      case False
      then show ?thesis
        using ih ne by (simp add: js_sort_Cons insert_sorted_hd first_best_Cons_skip)
    qed
  qed
qed


lemma insert_sorted_mset: "mset (insert_sorted cmp x ys) = add_mset x (mset ys)"
  by (induction ys) auto

lemma js_sort_mset: "mset (js_sort cmp xs) = mset xs"
  by (induction xs) (auto simp: js_sort_Cons insert_sorted_mset js_sort_def)

lemma insert_sorted_set: "set (insert_sorted cmp x ys) = insert x (set ys)"
  by (induction ys) auto

lemma insert_sorted_descending:
  "sorted_wrt (\<lambda>a b. r_confidence b \<le> r_confidence a) ys \<Longrightarrow>
   sorted_wrt (\<lambda>a b. r_confidence b \<le> r_confidence a) (insert_sorted by_confidence x ys)"
proof (induction ys)
  case Nil
  then show ?case by simp
next
  case (Cons y ys)
  show ?case
  proof (cases "by_confidence x y \<le> 0")
    case True
    then have "r_confidence y \<le> r_confidence x" by (simp add: by_confidence_def)
    with Cons.prems True show ?thesis by fastforce
  next
    case False
    then have "r_confidence x \<le> r_confidence y" by (simp add: by_confidence_def)
    with Cons False show ?thesis by (auto simp: insert_sorted_set)
  qed
qed

lemma js_sort_descending:
  "sorted_wrt (\<lambda>a b. r_confidence b \<le> r_confidence a) (js_sort by_confidence xs)"
  by (induction xs) (simp_all add: js_sort_Cons insert_sorted_descending, simp add: js_sort_def)

lemma with_confidence_set:
  "set (with_confidence rs) = {r. Some r \<in> set rs \<and> r_confidence r \<noteq> 0}"
  by (induction rs rule: with_confidence.induct) auto

lemma sample_ranking:
  "determineBestAnswer [Some related_topics, Some dictionary_entry] ''rain''
     = Some (format_best dictionary_entry)"
  by (simp add: determineBestAnswer_def js_sort_def by_confidence_def related_topics_def
      dictionary_entry_def)

text \<open>
  Claim C1, as the code has it. The results that are not \<open>null\<close> and whose confidence is
  not 0 are sorted by confidence, greatest first, by a stable sort; the best answer is
  the formatted first element, that is the first result of the input list that has the
  greatest confidence: among results of equal confidence the one that comes first in the
  input wins, whatever its type. When no result is left the answer is \<open>null\<close>.
\<close>

theorem best_is_first_of_greatest_confidence:
  "sorted_wrt (\<lambda>a b. r_confidence b \<le> r_confidence a)
      (js_sort by_confidence (with_confidence results))
   \<and> mset (js_sort by_confidence (with_confidence results)) = mset (with_confidence results)
   \<and> set (with_confidence results) = {r. Some r \<in> set results \<and> r_confidence r \<noteq> 0}
   \<and> (with_confidence results = [] \<longrightarrow> determineBestAnswer results query = None)
   \<and> (with_confidence results \<noteq> [] \<longrightarrow>
        (\<exists>best. determineBestAnswer results query = Some (format_best best)
           \<and> first_best (with_confidence results) best))"
proof (intro conjI impI)
  show "sorted_wrt (\<lambda>a b. r_confidence b \<le> r_confidence a)
      (js_sort by_confidence (with_confidence results))"
    by (rule js_sort_descending)
  show "mset (js_sort by_confidence (with_confidence results)) = mset (with_confidence results)"
    by (rule js_sort_mset)
  show "set (with_confidence results) = {r. Some r \<in> set results \<and> r_confidence r \<noteq> 0}"
    by (rule with_confidence_set)
next
  assume "with_confidence results = []"
  then show "determineBestAnswer results query = None"
    by (simp add: determineBestAnswer_def js_sort_def)
next
  assume ne: "with_confidence results \<noteq> []"
  then have r: "results \<noteq> []" by auto
  let ?sorted = "js_sort by_confidence (with_confidence results)"
  from ne have "?sorted \<noteq> []" by (simp add: js_sort_Nil_iff)
  then obtain best rest where s: "?sorted = best # rest" by (cases ?sorted) auto
  have "first_best (with_confidence results) (hd ?sorted)"
    using ne by (rule hd_js_sort_first_best)
  with s have "first_best (with_confidence results) best" by simp
  moreover have "determineBestAnswer results query = Some (format_best best)"
    using r s by (simp add: determineBestAnswer_def)
  ultimately show "\<exists>best. determineBestAnswer results query = Some (format_best best)
           \<and> first_best (with_confidence results) best" by blast
qed

theorem best_is_first_of_greatest_confidence_witness:
  "determineBestAnswer [Some related_topics, Some dictionary_entry] ''rain''
     = Some (format_best dictionary_entry)
   \<and> (\<exists>best. determineBestAnswer [Some related_topics, Some dictionary_entry] ''rain''
                = Some (format_best best)
        \<and> first_best (with_confidence [Some related_topics, Some dictionary_entry]) best)
   \<and> determineBestAnswer [Some (related_topics\<lparr>r_confidence := 0\<rparr>)] ''rain'' = None"
proof -
  have ne: "with_confidence [Some related_topics, Some dictionary_entry] \<noteq> []"
    by (simp add: related_topics_def)
  have em: "with_confidence [Some (related_topics\<lparr>r_confidence := 0\<rparr>)] = []"
    by simp
  note a = best_is_first_of_greatest_confidence
    [of "[Some related_topics, Some dictionary_entry]" "''rain''"]
  note b = best_is_first_of_greatest_confidence
    [of "[Some (related_topics\<lparr>r_confidence := 0\<rparr>)]" "''rain''"]
  from a ne have "\<exists>best. determineBestAnswer [Some related_topics, Some dictionary_entry] ''rain''
                = Some (format_best best)
        \<and> first_best (with_confidence [Some related_topics, Some dictionary_entry]) best"
    by blast
  moreover from b em
  have "determineBestAnswer [Some (related_topics\<lparr>r_confidence := 0\<rparr>)] ''rain'' = None"
    by blast
  ultimately show ?thesis using sample_ranking by blast
qed

text \<open>
  A full search in which only the Wikipedia text search and Stack Overflow answer, both
  with confidence 0.7: the raw search results come first in the list and win over the
  technical question.
\<close>

theorem equal_confidence_keeps_input_order:
  "map_option f_type
     (determineBestAnswer [Some wikipedia_search, Some stackoverflow_question] ''how to sort'')
   = Some ''search_results''"
  by (simp add: determineBestAnswer_def js_sort_def by_confidence_def wikipedia_search_def
      stackoverflow_question_def format_best_def)

section \<open>Properties of smartSearch\<close>

text \<open>
  Claim C5. When the direct-answer source returns a result of type \<open>instant_answer\<close> or
  \<open>abstract\<close>, \<open>smartSearch\<close> returns \<open>found = true\<close> with that very result, and the only
  source function it has called is \<open>searchDuckDuckGo\<close>; the cache is not touched.
\<close>

theorem direct_answer_short_circuits:
  assumes "duckDuckGo src q = Fulfilled (Some r)"
    and "r_type r = ''instant_answer'' \<or> r_type r = ''abstract''"
  shows "\<exists>ans st'. smartSearch src t0 t1 q st = (Fulfilled ans, st')
           \<and> found ans \<and> result ans = Some (Source r) \<and> fallbackUsed ans = Some False
           \<and> calls st' = calls st @ [SearchDuckDuckGo q]
           \<and> web_cache st' = web_cache st"
  using assms by (auto simp: smartSearch_def call_source_def found_answer_def)


theorem direct_answer_short_circuits_witness:
  "\<exists>ans st'. smartSearch
        \<lparr>duckDuckGo = (\<lambda>q. Fulfilled (Some (related_topics\<lparr>r_type := ''abstract''\<rparr>))),
         wikipedia = (\<lambda>q. Rejected), wikipediaExtracts = (\<lambda>q. Rejected),
         stackExchange = (\<lambda>q. Rejected), dictionaryApi = (\<lambda>q. Rejected)\<rparr>
        0 10 ''rain'' \<lparr>web_cache = new_SmartCache, calls = []\<rparr> = (Fulfilled ans, st')
      \<and> found ans \<and> result ans = Some (Source (related_topics\<lparr>r_type := ''abstract''\<rparr>))
      \<and> fallbackUsed ans = Some False
      \<and> calls st' = calls \<lparr>web_cache = new_SmartCache, calls = []\<rparr> @ [SearchDuckDuckGo ''rain'']
      \<and> web_cache st' = web_cache \<lparr>web_cache = new_SmartCache, calls = []\<rparr>"
proof -
  let ?src = "\<lparr>duckDuckGo = (\<lambda>q. Fulfilled (Some (related_topics\<lparr>r_type := ''abstract''\<rparr>))),
         wikipedia = (\<lambda>q. Rejected), wikipediaExtracts = (\<lambda>q. Rejected),
         stackExchange = (\<lambda>q. Rejected), dictionaryApi = (\<lambda>q. Rejected)\<rparr>"
  have a: "duckDuckGo ?src ''rain'' = Fulfilled (Some (related_topics\<lparr>r_type := ''abstract''\<rparr>))"
    by simp
  have b: "r_type (related_topics\<lparr>r_type := ''abstract''\<rparr>) = ''instant_answer''
           \<or> r_type (related_topics\<lparr>r_type := ''abstract''\<rparr>) = ''abstract''"
    by simp
  show ?thesis by (rule direct_answer_short_circuits [OF a b])
qed

end
